theory Spec2Isabelle
  imports Main "HOL-Library.Multiset" "HOL-Library.List_Lexorder"
begin

section \<open>Python values\<close>

text \<open>
  A Python \<open>str\<close> is a sequence of Unicode code points, and \<open>len\<close> counts code points,
  so a string is a list of natural numbers. \<open>PY\<close> turns an ASCII literal into such a list.
\<close>

type_synonym pystr = "nat list"

abbreviation (input) PY :: "string \<Rightarrow> pystr" where
  "PY s \<equiv> map of_char s"

text \<open>
  What \<open>resp.json()\<close> returns: \<open>None\<close>, \<open>bool\<close>, \<open>int\<close>, \<open>str\<close>, \<open>list\<close> and \<open>dict\<close>.
  A \<open>dict\<close> keeps its keys in insertion order, so it is an association list; a decoded
  object has every key once. Numbers with a fraction or an exponent (Python \<open>float\<close>) are
  outside this model: the Steam Web API sends integers in every numeric field that
  the program reads.
\<close>

datatype json =
    JNull
  | JBool bool
  | JInt int
  | JStr pystr
  | JArr "json list"
  | JObj "(pystr \<times> json) list"

datatype py_error =
    RequestException
  | HTTPError
  | JSONDecodeError
  | AttributeError
  | TypeError
  | KeyError
  | IndexError
  | OverflowError
  | ValueError

text \<open>A computation that may raise: \<open>Inl e\<close> is the exception, \<open>Inr v\<close> the value.\<close>

definition ebind :: "py_error + 'a \<Rightarrow> ('a \<Rightarrow> py_error + 'b) \<Rightarrow> py_error + 'b" where
  "ebind m f = (case m of Inl e \<Rightarrow> Inl e | Inr x \<Rightarrow> f x)"

fun map_err :: "('a \<Rightarrow> py_error + 'b) \<Rightarrow> 'a list \<Rightarrow> py_error + 'b list" where
  "map_err f [] = Inr []"
| "map_err f (x # xs) =
     (case f x of
        Inl e \<Rightarrow> Inl e
      | Inr y \<Rightarrow> (case map_err f xs of Inl e \<Rightarrow> Inl e | Inr ys \<Rightarrow> Inr (y # ys)))"

text \<open>
  The parts of the Python runtime and of the process environment that the program reads
  and that are tables or platform code rather than program text:
  the environment variable \<open>STEAM_API_KEY\<close> (\<open>os.getenv\<close>, \<open>None\<close> when unset),
  the Unicode character database behind \<open>str.strip\<close> and \<open>str.isdigit\<close>,
  \<open>str()\<close> of a \<open>list\<close> or \<open>dict\<close>,
  \<open>datetime.datetime.utcfromtimestamp(x).strftime("%m/%d/%Y")\<close>,
  and the outcome of \<open>sorted\<close> on at least two keys that are all lists (it depends on
  which pairs the sorting algorithm compares).
\<close>

record runtime =
  STEAM_API_KEY :: "pystr option"
  isspace :: "nat \<Rightarrow> bool"
  isdigit :: "nat \<Rightarrow> bool"
  repr :: "json \<Rightarrow> pystr"
  utc_mdY :: "json \<Rightarrow> py_error + pystr"
  sorted_list_keys :: "(json \<times> json) list \<Rightarrow> py_error + json list"

subsection \<open>Built-in operations on decoded values\<close>

fun truthy :: "json \<Rightarrow> bool" where
  "truthy JNull = False"
| "truthy (JBool b) = b"
| "truthy (JInt n) = (n \<noteq> 0)"
| "truthy (JStr s) = (s \<noteq> [])"
| "truthy (JArr xs) = (xs \<noteq> [])"
| "truthy (JObj kvs) = (kvs \<noteq> [])"

text \<open>\<open>a or b\<close>\<close>

definition py_or :: "json \<Rightarrow> json \<Rightarrow> json" where
  "py_or a b = (if truthy a then a else b)"

text \<open>\<open>v.get(k, d)\<close>: only a \<open>dict\<close> has the method.\<close>

fun py_get :: "json \<Rightarrow> pystr \<Rightarrow> json \<Rightarrow> py_error + json" where
  "py_get (JObj kvs) k d = Inr (case map_of kvs k of None \<Rightarrow> d | Some x \<Rightarrow> x)"
| "py_get _ k d = Inl AttributeError"

text \<open>\<open>v[k]\<close> with a string key.\<close>

fun py_item :: "json \<Rightarrow> pystr \<Rightarrow> py_error + json" where
  "py_item (JObj kvs) k = (case map_of kvs k of None \<Rightarrow> Inl KeyError | Some x \<Rightarrow> Inr x)"
| "py_item _ k = Inl TypeError"

text \<open>\<open>v[0]\<close>. The keys of a decoded object are strings, so \<open>0\<close> is never one of them.\<close>

fun py_item0 :: "json \<Rightarrow> py_error + json" where
  "py_item0 (JArr []) = Inl IndexError"
| "py_item0 (JArr (x # xs)) = Inr x"
| "py_item0 (JStr []) = Inl IndexError"
| "py_item0 (JStr (c # cs)) = Inr (JStr [c])"
| "py_item0 (JObj kvs) = Inl KeyError"
| "py_item0 _ = Inl TypeError"

text \<open>Iteration: a list gives its elements, a string its characters, a dict its keys.\<close>

fun py_iter :: "json \<Rightarrow> py_error + json list" where
  "py_iter (JArr xs) = Inr xs"
| "py_iter (JStr s) = Inr (map (\<lambda>c. JStr [c]) s)"
| "py_iter (JObj kvs) = Inr (map (\<lambda>kv. JStr (fst kv)) kvs)"
| "py_iter _ = Inl TypeError"

fun is_str :: "json \<Rightarrow> bool" where
  "is_str (JStr s) = True"
| "is_str _ = False"

fun the_str :: "json \<Rightarrow> pystr" where
  "the_str (JStr s) = s"
| "the_str _ = []"

text \<open>\<open>bool\<close> is a subclass of \<open>int\<close>: \<open>True\<close> counts as 1 and \<open>False\<close> as 0.\<close>

fun num_of :: "json \<Rightarrow> int option" where
  "num_of (JInt n) = Some n"
| "num_of (JBool b) = Some (if b then 1 else 0)"
| "num_of _ = None"

definition is_num :: "json \<Rightarrow> bool" where
  "is_num v = (num_of v \<noteq> None)"

definition the_num :: "json \<Rightarrow> int" where
  "the_num v = (case num_of v of None \<Rightarrow> 0 | Some n \<Rightarrow> n)"

fun is_arr :: "json \<Rightarrow> bool" where
  "is_arr (JArr xs) = True"
| "is_arr _ = False"

text \<open>\<open>a == b\<close> where at least one side is \<open>None\<close>, a number or a string.\<close>

fun scalar_eq :: "json \<Rightarrow> json \<Rightarrow> bool" where
  "scalar_eq JNull JNull = True"
| "scalar_eq (JStr s) (JStr t) = (s = t)"
| "scalar_eq a b = (is_num a \<and> is_num b \<and> the_num a = the_num b)"

text \<open>A \<open>list\<close> or a \<open>dict\<close> cannot be a dictionary key.\<close>

fun hashable :: "json \<Rightarrow> bool" where
  "hashable (JArr xs) = False"
| "hashable (JObj kvs) = False"
| "hashable _ = True"

fun join :: "pystr \<Rightarrow> pystr list \<Rightarrow> pystr" where
  "join sep [] = []"
| "join sep [x] = x"
| "join sep (x # y # ys) = x @ sep @ join sep (y # ys)"

text \<open>\<open>sep.join(xs)\<close>: every item has to be a \<open>str\<close>.\<close>

definition py_join :: "pystr \<Rightarrow> json list \<Rightarrow> py_error + pystr" where
  "py_join sep xs =
     (if list_all is_str xs then Inr (join sep (map the_str xs)) else Inl TypeError)"

fun show_nat :: "nat \<Rightarrow> pystr" where
  "show_nat n = (if n < 10 then [48 + n] else show_nat (n div 10) @ [48 + n mod 10])"

declare show_nat.simps [simp del]

definition show_int :: "int \<Rightarrow> pystr" where
  "show_int i = (if i < 0 then 45 # show_nat (nat (- i)) else show_nat (nat i))"

text \<open>\<open>str(v)\<close>, which is what an f-string field without a format spec inserts.\<close>

fun py_str :: "runtime \<Rightarrow> json \<Rightarrow> pystr" where
  "py_str rt JNull = PY ''None''"
| "py_str rt (JBool b) = (if b then PY ''True'' else PY ''False'')"
| "py_str rt (JInt n) = show_int n"
| "py_str rt (JStr s) = s"
| "py_str rt v = repr rt v"

text \<open>\<open>s.strip()\<close> and \<open>s.isdigit()\<close>\<close>

definition strip :: "runtime \<Rightarrow> pystr \<Rightarrow> pystr" where
  "strip rt s = rev (dropWhile (isspace rt) (rev (dropWhile (isspace rt) s)))"

definition str_isdigit :: "runtime \<Rightarrow> pystr \<Rightarrow> bool" where
  "str_isdigit rt s = (s \<noteq> [] \<and> list_all (isdigit rt) s)"

text \<open>
  \<open>sorted(xs, key=..., reverse=True)\<close> on the pairs of key and item. CPython reverses
  the list, sorts it stably in ascending order and reverses the result. Numbers compare
  with numbers and strings with strings; no comparison is made on fewer than two items;
  \<open>None\<close> and dicts have no \<open><\<close>, and a comparison across these kinds raises.
\<close>

definition sorted_reverse :: "runtime \<Rightarrow> (json \<times> json) list \<Rightarrow> py_error + json list" where
  "sorted_reverse rt kxs =
     (if list_all (\<lambda>kx. is_num (fst kx)) kxs then
        Inr (map snd (rev (sort_key (\<lambda>kx. the_num (fst kx)) (rev kxs))))
      else if list_all (\<lambda>kx. is_str (fst kx)) kxs then
        Inr (map snd (rev (sort_key (\<lambda>kx. the_str (fst kx)) (rev kxs))))
      else if length kxs \<le> 1 then Inr (map snd kxs)
      else if list_all (\<lambda>kx. is_arr (fst kx)) kxs then sorted_list_keys rt kxs
      else Inl TypeError)"

section \<open>HTTP\<close>

text \<open>
  A call of \<open>requests.get\<close> or \<open>requests.post\<close> either raises (connection error,
  timeout) or returns a response with a status code and a body; \<open>body = None\<close> is a
  body that is not JSON, on which \<open>resp.json()\<close> raises. The network answers a
  request knowing the requests made before it; the program's effect on the world is the
  list of requests it has issued, oldest first.
\<close>

datatype http_method = GET | POST

record request =
  meth :: http_method
  url :: pystr
  params :: "(pystr \<times> json) list"
  headers :: "(pystr \<times> pystr) list"
  json_body :: "json option"
  timeout :: nat

record response =
  status_code :: int
  body :: "json option"

type_synonym network = "request list \<Rightarrow> request \<Rightarrow> py_error + response"

definition http_request ::
  "network \<Rightarrow> request \<Rightarrow> request list \<Rightarrow> (py_error + response) \<times> request list" where
  "http_request net rq log = (net log rq, log @ [rq])"

text \<open>\<open>raise_for_status\<close> of the requests library raises for 4xx and 5xx only.\<close>

definition raise_for_status :: "response \<Rightarrow> py_error + response" where
  "raise_for_status r =
     (if 400 \<le> status_code r \<and> status_code r < 600 then Inl HTTPError else Inr r)"

definition json_of :: "response \<Rightarrow> py_error + json" where
  "json_of r = (case body r of None \<Rightarrow> Inl JSONDecodeError | Some j \<Rightarrow> Inr j)"

definition api_key :: "runtime \<Rightarrow> json" where
  "api_key rt = (case STEAM_API_KEY rt of None \<Rightarrow> JNull | Some k \<Rightarrow> JStr k)"

section \<open>resolve_steam_id\<close>

definition vanity_request :: "runtime \<Rightarrow> pystr \<Rightarrow> request" where
  "vanity_request rt user_input =
     \<lparr>meth = GET,
      url = PY ''https://api.steampowered.com/ISteamUser/ResolveVanityURL/v0001/'',
      params = [(PY ''key'', api_key rt), (PY ''vanityurl'', JStr user_input)],
      headers = [],
      json_body = None,
      timeout = 10\<rparr>"

text \<open>
  The body of the \<open>try\<close>: \<open>Inr (Some v)\<close> is \<open>return v\<close> inside it, \<open>Inr None\<close> is
  leaving it without a return.
\<close>

definition vanity_try :: "py_error + response \<Rightarrow> py_error + json option" where
  "vanity_try r =
     ebind r (\<lambda>resp.
     ebind (raise_for_status resp) (\<lambda>_.
     ebind (json_of resp) (\<lambda>data.
     ebind (py_item data (PY ''response'')) (\<lambda>re.
     ebind (py_item re (PY ''success'')) (\<lambda>success.
       if scalar_eq success (JInt 1) then
         ebind (py_item data (PY ''response'')) (\<lambda>re'.
         ebind (py_item re' (PY ''steamid'')) (\<lambda>steamid. Inr (Some steamid)))
       else Inr None)))))"

text \<open>
  The result is a Python value: \<open>JNull\<close> is \<open>None\<close>. The \<open>except Exception\<close> clause
  logs and falls through to \<open>return None\<close>.
\<close>

definition resolve_steam_id ::
  "runtime \<Rightarrow> network \<Rightarrow> pystr \<Rightarrow> request list \<Rightarrow> (py_error + json) \<times> request list" where
  "resolve_steam_id rt net raw log =
     (let user_input = strip rt raw in
      if str_isdigit rt user_input \<and> length user_input \<ge> 15 then (Inr (JStr user_input), log)
      else
        let (r, log') = http_request net (vanity_request rt user_input) log in
        (case vanity_try r of
           Inl e \<Rightarrow> (Inr JNull, log')
         | Inr None \<Rightarrow> (Inr JNull, log')
         | Inr (Some steamid) \<Rightarrow> (Inr steamid, log')))"

section \<open>fetch_steam_profile\<close>

record aggregate =
  profile :: json
  friends :: "json list"
  owned_games_sample :: "json list"

definition base_url :: pystr where
  "base_url = PY ''https://api.steampowered.com''"

definition json_headers :: "(pystr \<times> pystr) list" where
  "json_headers = [(PY ''Content-Type'', PY ''application/json'')]"

definition summaries_request :: "runtime \<Rightarrow> pystr \<Rightarrow> nat \<Rightarrow> request" where
  "summaries_request rt steamids t =
     \<lparr>meth = GET,
      url = base_url @ PY ''/ISteamUser/GetPlayerSummaries/v0002/'',
      params = [(PY ''key'', api_key rt), (PY ''steamids'', JStr steamids)],
      headers = json_headers,
      json_body = None,
      timeout = t\<rparr>"

definition friend_list_request :: "runtime \<Rightarrow> pystr \<Rightarrow> request" where
  "friend_list_request rt steam_id =
     \<lparr>meth = GET,
      url = base_url @ PY ''/ISteamUser/GetFriendList/v0001/'',
      params = [(PY ''key'', api_key rt), (PY ''steamid'', JStr steam_id),
                (PY ''relationship'', JStr (PY ''friend''))],
      headers = json_headers,
      json_body = None,
      timeout = 15\<rparr>"

definition owned_games_request :: "runtime \<Rightarrow> pystr \<Rightarrow> request" where
  "owned_games_request rt steam_id =
     \<lparr>meth = GET,
      url = base_url @ PY ''/IPlayerService/GetOwnedGames/v0001/'',
      params = [(PY ''key'', api_key rt), (PY ''steamid'', JStr steam_id),
                (PY ''include_appinfo'', JInt 1), (PY ''include_played_free_games'', JInt 1)],
      headers = json_headers,
      json_body = None,
      timeout = 15\<rparr>"

text \<open>\<open>resp.json().get(a, {}).get(b, [])\<close>\<close>

definition get2 :: "response \<Rightarrow> pystr \<Rightarrow> pystr \<Rightarrow> py_error + json" where
  "get2 resp a b =
     ebind (json_of resp) (\<lambda>j.
     ebind (py_get j a (JObj [])) (\<lambda>inner.
     py_get inner b (JArr [])))"

subsection \<open>Friends\<close>

text \<open>
  One round of the batch loop after \<open>batch\<close> has been joined: the request, then the
  status test and what \<open>friends_list.extend\<close> appends. \<open>Inl e\<close> is an exception
  raised in the round.
\<close>

definition batch_outcome :: "py_error + response \<Rightarrow> py_error + json list" where
  "batch_outcome r =
     (case r of
        Inl e \<Rightarrow> Inl e
      | Inr profiles_resp \<Rightarrow>
          if status_code profiles_resp = 200 then
            ebind (get2 profiles_resp (PY ''response'') (PY ''players'')) py_iter
          else Inr [])"

definition fetch_batch ::
  "runtime \<Rightarrow> network \<Rightarrow> pystr \<Rightarrow> request list \<Rightarrow> (py_error + json list) \<times> request list" where
  "fetch_batch rt net batch log =
     (let (r, log') = http_request net (summaries_request rt batch 15) log
      in (batch_outcome r, log'))"

text \<open>
  \<open>for i in range(0, len(friend_ids), 100)\<close>. The list \<open>friends_list\<close> is extended in
  place, so what was appended before an exception stays; the loop returns the list
  together with the exception that ended it, if any.
\<close>

function friend_batches ::
  "runtime \<Rightarrow> network \<Rightarrow> json list \<Rightarrow> nat \<Rightarrow> json list \<Rightarrow> request list
     \<Rightarrow> (json list \<times> py_error option) \<times> request list" where
  "friend_batches rt net friend_ids i friends_list log =
     (if i < length friend_ids then
        (case py_join (PY '','') (take 100 (drop i friend_ids)) of
           Inl e \<Rightarrow> ((friends_list, Some e), log)
         | Inr batch \<Rightarrow>
             (case fetch_batch rt net batch log of
                (Inl e, log') \<Rightarrow> ((friends_list, Some e), log')
              | (Inr batch_profiles, log') \<Rightarrow>
                  friend_batches rt net friend_ids (i + 100) (friends_list @ batch_profiles) log'))
      else ((friends_list, None), log))"
  by pat_completeness auto
termination
  by (relation "measure (\<lambda>(rt, net, friend_ids, i, friends_list, log). length friend_ids - i)") auto

declare friend_batches.simps [simp del]

text \<open>The friends section: everything raised inside the \<open>try\<close> is caught and logged.\<close>

definition fetch_friends ::
  "runtime \<Rightarrow> network \<Rightarrow> pystr \<Rightarrow> request list \<Rightarrow> json list \<times> request list" where
  "fetch_friends rt net steam_id log =
     (let (r, log1) = http_request net (friend_list_request rt steam_id) log in
      (case r of
         Inl e \<Rightarrow> ([], log1)
       | Inr friends_resp \<Rightarrow>
           if status_code friends_resp = 200 then
             (case ebind (get2 friends_resp (PY ''friendslist'') (PY ''friends'')) (\<lambda>friends.
                   ebind (py_iter friends) (map_err (\<lambda>f. py_item f (PY ''steamid'')))) of
                Inl e \<Rightarrow> ([], log1)
              | Inr friend_ids \<Rightarrow>
                  if friend_ids \<noteq> [] then
                    (let ((friends_list, exc), log2) = friend_batches rt net friend_ids 0 [] log1
                     in (friends_list, log2))
                  else ([], log1))
           else ([], log1)))"

subsection \<open>Games\<close>

definition playtime_key :: "json \<Rightarrow> py_error + json" where
  "playtime_key g = py_get g (PY ''playtime_forever'') (JInt 0)"

text \<open>\<open>sorted(all_games, key=lambda g: g.get("playtime_forever", 0), reverse=True)[:10]\<close>\<close>

definition top_games :: "runtime \<Rightarrow> json \<Rightarrow> py_error + json list" where
  "top_games rt all_games =
     ebind (py_iter all_games) (\<lambda>gs.
     ebind (map_err playtime_key gs) (\<lambda>ks.
     ebind (sorted_reverse rt (zip ks gs)) (\<lambda>sorted_games.
     Inr (take 10 sorted_games))))"

definition fetch_games ::
  "runtime \<Rightarrow> network \<Rightarrow> pystr \<Rightarrow> request list \<Rightarrow> json list \<times> request list" where
  "fetch_games rt net steam_id log =
     (let (r, log') = http_request net (owned_games_request rt steam_id) log in
      (case r of
         Inl e \<Rightarrow> ([], log')
       | Inr games_resp \<Rightarrow>
           if status_code games_resp = 200 then
             (case ebind (get2 games_resp (PY ''response'') (PY ''games'')) (top_games rt) of
                Inl e \<Rightarrow> ([], log')
              | Inr owned_games \<Rightarrow> (owned_games, log'))
           else ([], log')))"

subsection \<open>The whole aggregation\<close>

text \<open>
  The profile section is outside every \<open>try\<close>: what it raises reaches the caller.
  \<open>Inr None\<close> is \<open>return None\<close>.
\<close>

definition fetch_steam_profile ::
  "runtime \<Rightarrow> network \<Rightarrow> pystr \<Rightarrow> request list
     \<Rightarrow> (py_error + aggregate option) \<times> request list" where
  "fetch_steam_profile rt net steam_id log =
     (let (r, log1) = http_request net (summaries_request rt steam_id 10) log in
      (case r of
         Inl e \<Rightarrow> (Inl e, log1)
       | Inr profile_resp \<Rightarrow>
           if status_code profile_resp \<noteq> 200 then (Inr None, log1)
           else
             (case get2 profile_resp (PY ''response'') (PY ''players'') of
                Inl e \<Rightarrow> (Inl e, log1)
              | Inr players \<Rightarrow>
                  if \<not> truthy players then (Inr None, log1)
                  else
                    (case py_item0 players of
                       Inl e \<Rightarrow> (Inl e, log1)
                     | Inr user_data \<Rightarrow>
                         (let (friends_list, log2) = fetch_friends rt net steam_id log1;
                              (owned_games, log3) = fetch_games rt net steam_id log2
                          in (Inr (Some \<lparr>profile = user_data,
                                          friends = friends_list,
                                          owned_games_sample = owned_games\<rparr>), log3))))))"

section \<open>simplify_steam_profile\<close>

subsection \<open>Friend countries\<close>

text \<open>
  \<open>friend_countries[c] = friend_countries.get(c, 0) + 1\<close> on a dict in insertion order:
  a key that is already there keeps its place (and its first spelling), a new key goes
  to the end. Keys are found by \<open>==\<close>.
\<close>

fun dict_incr :: "(json \<times> int) list \<Rightarrow> json \<Rightarrow> (json \<times> int) list" where
  "dict_incr [] c = [(c, 0 + 1)]"
| "dict_incr ((k, n) # kvs) c =
     (if scalar_eq k c then (k, n + 1) # kvs else (k, n) # dict_incr kvs c)"

text \<open>The loop \<open>for f in friends\<close>, started on the dict built so far.\<close>

fun friend_countries :: "json list \<Rightarrow> (json \<times> int) list \<Rightarrow> py_error + (json \<times> int) list" where
  "friend_countries [] d = Inr d"
| "friend_countries (f # fs) d =
     (case py_get f (PY ''loccountrycode'') (JStr (PY ''??'')) of
        Inl e \<Rightarrow> Inl e
      | Inr c \<Rightarrow> if hashable c then friend_countries fs (dict_incr d c) else Inl TypeError)"

text \<open>\<open>sorted(friend_countries.items(), key=lambda x: -x[1])[:5]\<close>\<close>

definition top5 :: "(json \<times> int) list \<Rightarrow> (json \<times> int) list" where
  "top5 d = take 5 (sort_key (\<lambda>x. - snd x) d)"

definition country_entry :: "runtime \<Rightarrow> json \<times> int \<Rightarrow> pystr" where
  "country_entry rt x = show_int (snd x) @ PY '' from '' @ py_str rt (fst x)"

definition top_countries :: "runtime \<Rightarrow> (json \<times> int) list \<Rightarrow> pystr" where
  "top_countries rt d = join (PY '', '') (map (country_entry rt) (top5 d))"

subsection \<open>Playtime\<close>

text \<open>
  \<open>sum(g.get("playtime_forever", 0) for g in games)\<close>: the generator is consumed one
  game at a time, each value added to the running total.
\<close>

fun sum_playtime :: "json list \<Rightarrow> int \<Rightarrow> py_error + int" where
  "sum_playtime [] acc = Inr acc"
| "sum_playtime (g # gs) acc =
     (case py_get g (PY ''playtime_forever'') (JInt 0) of
        Inl e \<Rightarrow> Inl e
      | Inr v \<Rightarrow> (case num_of v of None \<Rightarrow> Inl TypeError | Some n \<Rightarrow> sum_playtime gs (acc + n)))"

text \<open>
  \<open>total / 60\<close> is a \<open>float\<close>: the IEEE 754 double nearest to the quotient, ties to
  even, and \<open>OverflowError\<close> beyond the largest double. A double is kept exactly, as a
  sign, a mantissa \<open>k\<close> and an exponent \<open>sh\<close>, with value \<open>k * 2 ^ sh\<close>. The format spec
  \<open>.1f\<close> prints the decimal with one fractional digit nearest to that value, ties
  to even, and keeps the sign.
\<close>

datatype py_float = PyFloat bool nat int

fun bit_length :: "nat \<Rightarrow> nat" where
  "bit_length n = (if n = 0 then 0 else Suc (bit_length (n div 2)))"

declare bit_length.simps [simp del]

definition round_div :: "nat \<Rightarrow> nat \<Rightarrow> nat" where
  "round_div a b =
     (let q = a div b; r = a mod b
      in if 2 * r < b then q else if 2 * r > b then q + 1 else if even q then q else q + 1)"

definition nearest_double :: "nat \<Rightarrow> nat \<Rightarrow> nat \<times> int" where
  "nearest_double a b =
     (let d = int (bit_length a) - int (bit_length b);
          e = (if (if d \<ge> 0 then a \<ge> b * 2 ^ nat d else a * 2 ^ nat (- d) \<ge> b) then d else d - 1);
          sh = e - 52;
          k = (if sh \<ge> 0 then round_div a (b * 2 ^ nat sh) else round_div (a * 2 ^ nat (- sh)) b)
      in (k, sh))"

definition int_true_div :: "int \<Rightarrow> nat \<Rightarrow> py_error + py_float" where
  "int_true_div n b =
     (if n = 0 then Inr (PyFloat False 0 0)
      else
        (let (k, sh) = nearest_double (nat \<bar>n\<bar>) b
         in if sh \<ge> 0 \<and> k * 2 ^ nat sh \<ge> 2 ^ 1024 then Inl OverflowError
            else Inr (PyFloat (n < 0) k sh)))"

fun tenths :: "py_float \<Rightarrow> nat" where
  "tenths (PyFloat neg k sh) =
     (if sh \<ge> 0 then 10 * k * 2 ^ nat sh else round_div (10 * k) (2 ^ nat (- sh)))"

fun is_negative :: "py_float \<Rightarrow> bool" where
  "is_negative (PyFloat neg k sh) = neg"

definition format_1f :: "py_float \<Rightarrow> pystr" where
  "format_1f x =
     (if is_negative x then PY ''-'' else []) @
     show_nat (tenths x div 10) @ PY ''.'' @ show_nat (tenths x mod 10)"

subsection \<open>The digest\<close>

text \<open>The f-string that the function returns, with one argument for each field.\<close>

definition digest_text ::
  "pystr \<Rightarrow> pystr \<Rightarrow> pystr \<Rightarrow> pystr \<Rightarrow> pystr \<Rightarrow> pystr \<Rightarrow> pystr \<Rightarrow> pystr \<Rightarrow> pystr \<Rightarrow> pystr" where
  "digest_text persona name country created_str n_friends top_countries_str
               n_games total_playtime game_titles =
     PY ''Steam User:\<newline>- Display name: '' @ persona @
     PY ''\<newline>- Real name: '' @ name @
     PY ''\<newline>- Country: '' @ country @
     PY ''\<newline>- Account created: '' @ created_str @
     PY ''\<newline>\<newline>Friends:\<newline>- Total friends: '' @ n_friends @
     PY ''\<newline>- Top friend countries: '' @ top_countries_str @
     PY ''\<newline>\<newline>Gaming activity:\<newline>- Sample of owned games: '' @ n_games @
     PY ''\<newline>- Total playtime (in sample): ~'' @ total_playtime @
     PY '' hours\<newline>- Example games: '' @ game_titles"

text \<open>\<open>profile.get(k) or default\<close>\<close>

definition get_or :: "json \<Rightarrow> pystr \<Rightarrow> pystr \<Rightarrow> py_error + json" where
  "get_or p k dflt = ebind (py_get p k JNull) (\<lambda>v. Inr (py_or v (JStr dflt)))"

definition created_string :: "runtime \<Rightarrow> json \<Rightarrow> py_error + pystr" where
  "created_string rt created =
     (if truthy created then utc_mdY rt created else Inr (PY ''Unknown''))"

definition game_titles :: "json list \<Rightarrow> py_error + pystr" where
  "game_titles games =
     ebind (map_err (\<lambda>g. py_item g (PY ''name'')) (take 10 games)) (py_join (PY '', ''))"

definition simplify_steam_profile :: "runtime \<Rightarrow> aggregate \<Rightarrow> py_error + pystr" where
  "simplify_steam_profile rt data =
     (let games = owned_games_sample data in
      ebind (get_or (profile data) (PY ''realname'') (PY ''Not specified'')) (\<lambda>name.
      ebind (get_or (profile data) (PY ''personaname'') (PY ''No nickname'')) (\<lambda>persona.
      ebind (get_or (profile data) (PY ''loccountrycode'') (PY ''Unknown'')) (\<lambda>country.
      ebind (py_get (profile data) (PY ''timecreated'') JNull) (\<lambda>created.
      ebind (created_string rt created) (\<lambda>created_str.
      ebind (friend_countries (friends data) []) (\<lambda>countries.
      ebind (sum_playtime games 0) (\<lambda>total.
      ebind (int_true_div total 60) (\<lambda>total_playtime.
      ebind (game_titles games) (\<lambda>titles.
        Inr (digest_text (py_str rt persona) (py_str rt name) (py_str rt country) created_str
               (show_nat (length (friends data))) (top_countries rt countries)
               (show_nat (length games)) (format_1f total_playtime) titles)))))))))))"

section \<open>llm_message\<close>

definition OLLAMA_URL :: pystr where
  "OLLAMA_URL = PY ''http://ollama:11434/api/chat''"

definition prompt :: "pystr \<Rightarrow> pystr" where
  "prompt message =
     PY ''You're a cheeky, sarcastic gamer from a chaotic Telegram group'' @
     [8212] @
     PY ''think meme lord with a heart of gold-plated snark. Playfully roast this Steam user like you're teasing your weird-but-lovable roommate.\<newline>'' @
     PY ''\<newline>'' @
     PY ''    Rules:\<newline>'' @
     PY ''    - EXACTLY 2 sentences.\<newline>'' @
     PY ''    - ('' @
     [8804] @
     PY ''50 words): highlight their absurdly niche gaming habits or bizarre playtime choices'' @
     [8212] @
     PY ''bonus if it screams '' @
     [8220] @
     PY ''I haven'' @
     [8217] @
     PY ''t seen sunlight since 2019'' @
     [8221] @
     PY '' '' @
     [127769, 127918] @
     PY ''.\<newline>'' @
     PY ''    - ('' @
     [8804] @
     PY ''50 words): gently jab at their life arc'' @
     [8212] @
     PY ''maybe they'' @
     [8217] @
     PY ''re globe-hopping while grinding CS:GO, or collecting hats in TF2 like it'' @
     [8217] @
     PY ''s a retirement plan '' @
     [127482, 127487, 9992, 65039, 128201] @
     PY ''.\<newline>'' @
     PY ''    - Use emojis for flavor, not cruelty (e.g., '' @
     [127918] @
     PY '' = passion, '' @
     [128368, 65039] @
     PY '' = time well'' @
     [8230] @
     PY '' spent?, '' @
     [129523] @
     PY '' = eternal traveler, '' @
     [127479, 127482] @
     PY ''/'' @
     [127482, 127487] @
     PY '' = plot twist).\<newline>'' @
     PY ''    - NO insults. NO assumptions about mental health, loneliness, or failure. Keep it light, witty, and based ONLY on visible Steam activity.\<newline>'' @
     PY ''    - If you sound mean or generic, you lose XP.\<newline>'' @
     PY ''\<newline>'' @
     PY ''    Steam profile summary:\<newline>'' @
     PY ''    '' @
     [1053, 1072, 1087, 1080, 1096, 1080] @
     PY '' '' @
     [1085, 1072] @
     PY '' '' @
     [1088, 1091, 1089, 1089, 1082, 1086, 1084] @
     PY '' '' @
     [1103, 1079, 1099, 1082, 1077] @
     PY ''\<newline>'' @
     PY ''    '' @
     message @
     PY ''\<newline>'' @
     PY ''    ''"

definition chat_request :: "pystr \<Rightarrow> request" where
  "chat_request message =
     \<lparr>meth = POST,
      url = OLLAMA_URL,
      params = [],
      headers = [],
      json_body = Some (JObj
        [(PY ''model'', JStr (PY ''phi3:mini'')),
         (PY ''messages'',
            JArr [JObj [(PY ''role'', JStr (PY ''user'')), (PY ''content'', JStr (prompt message))]]),
         (PY ''stream'', JBool False)]),
      timeout = 30\<rparr>"

definition apology :: pystr where
  "apology = PY ''Sorry, I'm having trouble thinking right now. '' @ [128533]"

text \<open>The body of the \<open>try\<close>: the value bound to \<open>answer\<close>.\<close>

definition llm_try :: "py_error + response \<Rightarrow> py_error + json" where
  "llm_try r =
     ebind r (\<lambda>resp.
     ebind (raise_for_status resp) (\<lambda>_.
     ebind (json_of resp) (\<lambda>j.
     ebind (py_item j (PY ''message'')) (\<lambda>m.
     py_item m (PY ''content'')))))"

definition llm_message ::
  "runtime \<Rightarrow> network \<Rightarrow> pystr \<Rightarrow> request list \<Rightarrow> (py_error + pystr) \<times> request list" where
  "llm_message rt net message log =
     (let (r, log') = http_request net (chat_request message) log;
          answer = (case llm_try r of Inl e \<Rightarrow> JStr apology | Inr a \<Rightarrow> a)
      in (Inr (py_str rt answer @ PY ''\<newline>\<newline>'' @ message), log'))"

section \<open>Notions used to state the properties\<close>

text \<open>
  The playtime by which a game is ranked, and the records that the data model of the
  specification describes: a friend record is an object whose country code, when it has
  one, can be a dictionary key; a game record is an object with a string name and, when
  it has one, a numeric playtime. An aggregate is well formed when its profile is an
  object whose creation time can be rendered, its friends and games are such records and
  the playtimes of the sample add up to less than \<open>2 ^ 1000\<close> minutes in magnitude.
\<close>

definition playtime_of :: "json \<Rightarrow> int" where
  "playtime_of g = (case playtime_key g of Inl e \<Rightarrow> 0 | Inr v \<Rightarrow> the_num v)"

definition friend_record :: "json \<Rightarrow> bool" where
  "friend_record f =
     (case f of
        JObj kvs \<Rightarrow> (case map_of kvs (PY ''loccountrycode'') of None \<Rightarrow> True | Some c \<Rightarrow> hashable c)
      | _ \<Rightarrow> False)"






text \<open>
  The country code under which a friend is counted, the number of friends with a given
  code, and the codes in the order in which they are first met. \<open>stored_count\<close> and
  \<open>dict_ok\<close> describe the dictionary while it is built: the count kept for a key,
  and that no two keys are equal.
\<close>

definition country_of :: "json \<Rightarrow> json" where
  "country_of f =
     (case py_get f (PY ''loccountrycode'') (JStr (PY ''??'')) of Inl e \<Rightarrow> JNull | Inr c \<Rightarrow> c)"

definition count_code :: "json \<Rightarrow> json list \<Rightarrow> int" where
  "count_code c cs = int (length (filter (scalar_eq c) cs))"

fun first_seen :: "json list \<Rightarrow> json list \<Rightarrow> json list" where
  "first_seen seen [] = seen"
| "first_seen seen (c # cs) =
     first_seen (if list_ex (\<lambda>k. scalar_eq k c) seen then seen else seen @ [c]) cs"

definition stored_count :: "(json \<times> int) list \<Rightarrow> json \<Rightarrow> int" where
  "stored_count d k = (case find (\<lambda>kv. scalar_eq (fst kv) k) d of None \<Rightarrow> 0 | Some kv \<Rightarrow> snd kv)"

fun dict_ok :: "(json \<times> int) list \<Rightarrow> bool" where
  "dict_ok [] = True"
| "dict_ok (kv # kvs) =
     (scalar_eq (fst kv) (fst kv) \<and> \<not> list_ex (\<lambda>x. scalar_eq (fst x) (fst kv)) kvs \<and> dict_ok kvs)"

text \<open>
  A game entry can be ranked: it is an object whose playtime field, when it has one, is
  a number. \<open>key_value\<close> is the key that \<open>sorted\<close> computes for it.
\<close>

definition game_entry :: "json \<Rightarrow> bool" where
  "game_entry g =
     (case g of
        JObj kvs \<Rightarrow> (case map_of kvs (PY ''playtime_forever'') of None \<Rightarrow> True | Some v \<Rightarrow> is_num v)
      | _ \<Rightarrow> False)"

definition key_value :: "json \<Rightarrow> json" where
  "key_value g = (case playtime_key g of Inl e \<Rightarrow> JNull | Inr v \<Rightarrow> v)"

text \<open>
  The batches of at most 100 identifiers into which a list is cut, the request for a
  batch, and the rounds of the batch loop seen from outside: whether the answer to a
  request makes the round raise, the records the round contributes, and both along a
  sequence of requests issued one after the other.
\<close>

function batches :: "'a list \<Rightarrow> 'a list list" where
  "batches xs = (if xs = [] then [] else take 100 xs # batches (drop 100 xs))"
  by pat_completeness auto
termination
  by (relation "measure length") auto

declare batches.simps [simp del]

definition batch_request :: "runtime \<Rightarrow> json list \<Rightarrow> request" where
  "batch_request rt batch = summaries_request rt (join (PY '','') (map the_str batch)) 15"

definition batch_raises :: "py_error + response \<Rightarrow> bool" where
  "batch_raises r = (case batch_outcome r of Inl e \<Rightarrow> True | Inr ps \<Rightarrow> False)"

definition batch_records :: "py_error + response \<Rightarrow> json list" where
  "batch_records r = (case batch_outcome r of Inl e \<Rightarrow> [] | Inr ps \<Rightarrow> ps)"

fun no_batch_raises :: "network \<Rightarrow> request list \<Rightarrow> request list \<Rightarrow> bool" where
  "no_batch_raises net log [] = True"
| "no_batch_raises net log (rq # rqs) =
     (\<not> batch_raises (net log rq) \<and> no_batch_raises net (log @ [rq]) rqs)"

fun run_batches :: "network \<Rightarrow> request list \<Rightarrow> request list \<Rightarrow> json list list" where
  "run_batches net log [] = []"
| "run_batches net log (rq # rqs) = batch_records (net log rq) # run_batches net (log @ [rq]) rqs"

section \<open>Concrete environments\<close>

text \<open>
  A runtime with the ASCII part of the Unicode tables and one known date, networks that
  answer from the number of requests made so far, and the payloads they send. They are
  the inputs at which the theorems below are instantiated.
\<close>

definition rt0 :: runtime where
  "rt0 =
     \<lparr>STEAM_API_KEY = Some (PY ''KEY''),
      isspace = (\<lambda>c. c = 32 \<or> (9 \<le> c \<and> c \<le> 13)),
      isdigit = (\<lambda>c. 48 \<le> c \<and> c \<le> 57),
      repr = (\<lambda>v. PY ''[...]''),
      utc_mdY = (\<lambda>v. if v = JInt 1577836800 then Inr (PY ''01/01/2020'') else Inl ValueError),
      sorted_list_keys = (\<lambda>kxs. Inl TypeError)\<rparr>"

definition net_down :: network where
  "net_down log rq = Inl RequestException"

definition vanity_found :: json where
  "vanity_found =
     JObj [(PY ''response'',
            JObj [(PY ''success'', JInt 1), (PY ''steamid'', JStr (PY ''76561197960287930''))])]"

definition net_vanity_300 :: network where
  "net_vanity_300 log rq = Inr \<lparr>status_code = 300, body = Some vanity_found\<rparr>"

definition chat_reply :: json where
  "chat_reply =
     JObj [(PY ''message'',
            JObj [(PY ''role'', JStr (PY ''assistant'')), (PY ''content'', JStr (PY ''GG''))])]"

definition net_chat_300 :: network where
  "net_chat_300 log rq = Inr \<lparr>status_code = 300, body = Some chat_reply\<rparr>"



definition agg1 :: aggregate where
  "agg1 =
     \<lparr>profile = JObj [(PY ''steamid'', JStr (PY ''76561198000000002'')),
                      (PY ''realname'', JStr []),
                      (PY ''timecreated'', JInt 0)],
      friends = [],
      owned_games_sample = []\<rparr>"

definition digest1 :: pystr where
  "digest1 =
     PY ''Steam User:\<newline>'' @
     PY ''- Display name: No nickname\<newline>'' @
     PY ''- Real name: Not specified\<newline>'' @
     PY ''- Country: Unknown\<newline>'' @
     PY ''- Account created: Unknown\<newline>'' @
     PY ''\<newline>'' @
     PY ''Friends:\<newline>'' @
     PY ''- Total friends: 0\<newline>'' @
     PY ''- Top friend countries: \<newline>'' @
     PY ''\<newline>'' @
     PY ''Gaming activity:\<newline>'' @
     PY ''- Sample of owned games: 0\<newline>'' @
     PY ''- Total playtime (in sample): ~0.0 hours\<newline>'' @
     PY ''- Example games: ''"

definition friends12 :: "json list" where
  "friends12 =
     map (\<lambda>c. JObj [(PY ''steamid'', JStr (PY ''7'')), (PY ''loccountrycode'', JStr c)])
       [PY ''US'', PY ''RU'', PY ''FR'', PY ''US'', PY ''RU'', PY ''US'',
        PY ''RU'', PY ''US'', PY ''RU'', PY ''FR'', PY ''US'', PY ''RU'']"

definition game :: "string \<Rightarrow> int \<Rightarrow> json" where
  "game n t = JObj [(PY ''name'', JStr (PY n)), (PY ''playtime_forever'', JInt t)]"

definition games15 :: "json list" where
  "games15 =
     [game ''A'' 30, game ''B'' 150, game ''C'' 10, game ''D'' 140, game ''E'' 50,
      game ''F'' 130, game ''G'' 70, game ''H'' 120, game ''I'' 90, game ''J'' 110,
      game ''K'' 100, game ''L'' 80, game ''M'' 60, game ''N'' 40, game ''O'' 20]"

definition net_games15 :: network where
  "net_games15 log rq =
     Inr \<lparr>status_code = 200,
          body = Some (JObj [(PY ''response'',
                   JObj [(PY ''game_count'', JInt 15), (PY ''games'', JArr games15)])])\<rparr>"

definition sid0 :: pystr where
  "sid0 = PY ''76561198000000001''"

definition player0 :: json where
  "player0 = JObj [(PY ''steamid'', JStr sid0), (PY ''personaname'', JStr (PY ''gabe''))]"

definition players_body :: "json list \<Rightarrow> json" where
  "players_body ps = JObj [(PY ''response'', JObj [(PY ''players'', JArr ps)])]"

definition net_profile_only :: network where
  "net_profile_only log rq =
     (if log = [] then Inr \<lparr>status_code = 200, body = Some (players_body [player0])\<rparr>
      else Inl RequestException)"

definition net_201 :: network where
  "net_201 log rq = Inr \<lparr>status_code = 201, body = Some (players_body [player0])\<rparr>"

definition friend_ids101 :: "json list" where
  "friend_ids101 = map (\<lambda>n. JStr (show_nat n)) [76561198000000001 ..< 76561198000000102]"

definition friend_entry :: "json \<Rightarrow> json" where
  "friend_entry i = JObj [(PY ''steamid'', i), (PY ''relationship'', JStr (PY ''friend''))]"

definition friends_body :: "json list \<Rightarrow> json" where
  "friends_body ids = JObj [(PY ''friendslist'', JObj [(PY ''friends'', JArr (map friend_entry ids))])]"

definition net_batch_500 :: network where
  "net_batch_500 log rq =
     (if log = [] then Inr \<lparr>status_code = 200, body = Some (friends_body friend_ids101)\<rparr>
      else if length log = 1 then Inr \<lparr>status_code = 500, body = None\<rparr>
      else Inr \<lparr>status_code = 200, body = Some (players_body [player0])\<rparr>)"

definition net_batch_timeout :: network where
  "net_batch_timeout log rq =
     (if log = [] then Inr \<lparr>status_code = 200, body = Some (friends_body friend_ids101)\<rparr>
      else if length log = 1 then Inl RequestException
      else Inr \<lparr>status_code = 200, body = Some (players_body [player0])\<rparr>)"

definition agg12 :: aggregate where
  "agg12 = \<lparr>profile = player0, friends = friends12, owned_games_sample = []\<rparr>"

definition digest12 :: pystr where
  "digest12 =
     PY ''Steam User:\<newline>'' @
     PY ''- Display name: gabe\<newline>'' @
     PY ''- Real name: Not specified\<newline>'' @
     PY ''- Country: Unknown\<newline>'' @
     PY ''- Account created: Unknown\<newline>'' @
     PY ''\<newline>'' @
     PY ''Friends:\<newline>'' @
     PY ''- Total friends: 12\<newline>'' @
     PY ''- Top friend countries: 5 from US, 5 from RU, 2 from FR\<newline>'' @
     PY ''\<newline>'' @
     PY ''Gaming activity:\<newline>'' @
     PY ''- Sample of owned games: 0\<newline>'' @
     PY ''- Total playtime (in sample): ~0.0 hours\<newline>'' @
     PY ''- Example games: ''"

section \<open>Properties\<close>

lemma ebind_simps [simp]:
  "ebind (Inl e) f = Inl e"
  "ebind (Inr x) f = f x"
  by (simp_all add: ebind_def)

text \<open>
  Claim C6. When the trimmed input is all digits and at least 15 characters long,
  \<open>resolve_steam_id\<close> returns that trimmed string as it is and issues no request: the
  list of requests is the one it started with, whatever the network would answer. An
  input without surrounding whitespace is its own trimmed form and comes back unchanged.
\<close>

theorem resolve_numeric_shortcut:
  assumes "str_isdigit rt (strip rt raw)" and "15 \<le> length (strip rt raw)"
  shows "resolve_steam_id rt net raw log = (Inr (JStr (strip rt raw)), log)
       \<and> (strip rt raw = raw \<longrightarrow> resolve_steam_id rt net raw log = (Inr (JStr raw), log))"
proof -
  have "resolve_steam_id rt net raw log = (Inr (JStr (strip rt raw)), log)"
    using assms by (simp add: resolve_steam_id_def Let_def)
  then show ?thesis by auto
qed

theorem resolve_numeric_shortcut_witness:
  "str_isdigit rt0 (strip rt0 (PY ''  76561198000000001 ''))
   \<and> 15 \<le> length (strip rt0 (PY ''  76561198000000001 ''))
   \<and> strip rt0 (PY ''  76561198000000001 '') = PY ''76561198000000001''
   \<and> resolve_steam_id rt0 net_down (PY ''  76561198000000001 '') []
       = (Inr (JStr (PY ''76561198000000001'')), [])"
proof -
  have s: "strip rt0 (PY ''  76561198000000001 '') = PY ''76561198000000001''"
    by (simp add: strip_def rt0_def)
  have d: "str_isdigit rt0 (strip rt0 (PY ''  76561198000000001 ''))"
    unfolding s by (simp add: str_isdigit_def rt0_def)
  have l: "15 \<le> length (strip rt0 (PY ''  76561198000000001 ''))"
    unfolding s by simp
  from resolve_numeric_shortcut [OF d l, of net_down "[]"] s d l show ?thesis
    by simp
qed

lemma vanity_try_Inl: "vanity_try (Inl e) = Inl e"
  by (simp add: vanity_try_def)

lemma vanity_try_Inr:
  "vanity_try (Inr resp) =
     (if 400 \<le> status_code resp \<and> status_code resp < 600 then Inl HTTPError
      else case body resp of
        None \<Rightarrow> Inl JSONDecodeError
      | Some j \<Rightarrow>
          (case ebind (py_item j (PY ''response'')) (\<lambda>re. py_item re (PY ''success'')) of
             Inl e \<Rightarrow> Inl e
           | Inr s \<Rightarrow>
               if scalar_eq s (JInt 1) then
                 ebind (py_item j (PY ''response'')) (\<lambda>re.
                 ebind (py_item re (PY ''steamid'')) (\<lambda>steamid. Inr (Some steamid)))
               else Inr None))"
  by (simp add: vanity_try_def raise_for_status_def json_of_def ebind_def
      split: sum.splits option.splits)

lemma vanity_try_no_steamid:
  assumes "body resp = Some j"
    and "ebind (py_item j (PY ''response'')) (\<lambda>re. py_item re (PY ''steamid'')) = Inl e"
  shows "(case vanity_try (Inr resp) of
            Inl e \<Rightarrow> JNull | Inr None \<Rightarrow> JNull | Inr (Some steamid) \<Rightarrow> steamid) = JNull"
proof (cases "py_item j (PY ''response'')")
  case (Inl a)
  with assms(1) show ?thesis
    by (simp add: vanity_try_def raise_for_status_def json_of_def)
next
  case (Inr re)
  with assms(2) have "py_item re (PY ''steamid'') = Inl e" by simp
  with Inr assms(1) show ?thesis
    by (cases "py_item re (PY ''success'')")
      (simp_all add: vanity_try_def raise_for_status_def json_of_def)
qed

lemma resolve_steam_id_lookup:
  assumes "\<not> (str_isdigit rt (strip rt raw) \<and> 15 \<le> length (strip rt raw))"
  shows "resolve_steam_id rt net raw log =
     (Inr (case vanity_try (net log (vanity_request rt (strip rt raw))) of
             Inl e \<Rightarrow> JNull | Inr None \<Rightarrow> JNull | Inr (Some steamid) \<Rightarrow> steamid),
      log @ [vanity_request rt (strip rt raw)])"
  using assms
  by (simp add: resolve_steam_id_def Let_def http_request_def split: sum.splits option.splits)

text \<open>
  Claim C7, amended. When the input does not take the numeric shortcut,
  \<open>resolve_steam_id\<close> issues exactly one request, the vanity lookup for the trimmed
  input, never raises, and returns \<open>None\<close> on a transport error, on a 4xx or 5xx
  status, on a body that is not JSON, on a body without \<open>response.success\<close> or
  without \<open>response.steamid\<close>, and on a \<open>success\<close> other than 1.
\<close>

theorem resolve_vanity_lookup:
  assumes "\<not> (str_isdigit rt (strip rt raw) \<and> 15 \<le> length (strip rt raw))"
  shows "snd (resolve_steam_id rt net raw log) = log @ [vanity_request rt (strip rt raw)]
    \<and> (\<exists>v. fst (resolve_steam_id rt net raw log) = Inr v)
    \<and> (\<forall>e. net log (vanity_request rt (strip rt raw)) = Inl e
          \<longrightarrow> fst (resolve_steam_id rt net raw log) = Inr JNull)
    \<and> (\<forall>resp. net log (vanity_request rt (strip rt raw)) = Inr resp
            \<and> 400 \<le> status_code resp \<and> status_code resp < 600
          \<longrightarrow> fst (resolve_steam_id rt net raw log) = Inr JNull)
    \<and> (\<forall>resp. net log (vanity_request rt (strip rt raw)) = Inr resp \<and> body resp = None
          \<longrightarrow> fst (resolve_steam_id rt net raw log) = Inr JNull)
    \<and> (\<forall>resp j e. net log (vanity_request rt (strip rt raw)) = Inr resp \<and> body resp = Some j
            \<and> ebind (py_item j (PY ''response'')) (\<lambda>re. py_item re (PY ''success'')) = Inl e
          \<longrightarrow> fst (resolve_steam_id rt net raw log) = Inr JNull)
    \<and> (\<forall>resp j s. net log (vanity_request rt (strip rt raw)) = Inr resp \<and> body resp = Some j
            \<and> ebind (py_item j (PY ''response'')) (\<lambda>re. py_item re (PY ''success'')) = Inr s
            \<and> \<not> scalar_eq s (JInt 1)
          \<longrightarrow> fst (resolve_steam_id rt net raw log) = Inr JNull)
    \<and> (\<forall>resp j e. net log (vanity_request rt (strip rt raw)) = Inr resp \<and> body resp = Some j
            \<and> ebind (py_item j (PY ''response'')) (\<lambda>re. py_item re (PY ''steamid'')) = Inl e
          \<longrightarrow> fst (resolve_steam_id rt net raw log) = Inr JNull)"
  unfolding resolve_steam_id_lookup [OF assms]
  by (intro conjI allI impI; (elim conjE)?; (simp add: vanity_try_no_steamid)?)
    (auto simp add: vanity_try_Inl vanity_try_Inr)

theorem resolve_vanity_lookup_witness:
  "\<not> (str_isdigit rt0 (strip rt0 (PY ''gabe'')) \<and> 15 \<le> length (strip rt0 (PY ''gabe'')))
   \<and> net_down [] (vanity_request rt0 (strip rt0 (PY ''gabe''))) = Inl RequestException
   \<and> snd (resolve_steam_id rt0 net_down (PY ''gabe'') []) = [vanity_request rt0 (PY ''gabe'')]
   \<and> fst (resolve_steam_id rt0 net_down (PY ''gabe'') []) = Inr JNull"
proof -
  have s: "strip rt0 (PY ''gabe'') = PY ''gabe''"
    by (simp add: strip_def rt0_def)
  have h: "\<not> (str_isdigit rt0 (strip rt0 (PY ''gabe'')) \<and> 15 \<le> length (strip rt0 (PY ''gabe'')))"
    unfolding s by simp
  have n: "net_down [] (vanity_request rt0 (strip rt0 (PY ''gabe''))) = Inl RequestException"
    by (simp add: net_down_def)
  from resolve_vanity_lookup [OF h, of net_down "[]"] n h show ?thesis
    unfolding s by simp
qed

text \<open>
  Claim C7 as stated fails: a response with status 300, which is not a 2xx status, and
  a body that reports success is resolved to the identifier in the body, because
  \<open>raise_for_status\<close> lets every status below 400 pass.
\<close>

theorem resolve_non_2xx_counterexample:
  "\<not> (str_isdigit rt0 (strip rt0 (PY ''gabe'')) \<and> 15 \<le> length (strip rt0 (PY ''gabe'')))
   \<and> net_vanity_300 [] (vanity_request rt0 (strip rt0 (PY ''gabe'')))
       = Inr \<lparr>status_code = 300, body = Some vanity_found\<rparr>
   \<and> fst (resolve_steam_id rt0 net_vanity_300 (PY ''gabe'') [])
       = Inr (JStr (PY ''76561197960287930''))
   \<and> fst (resolve_steam_id rt0 net_vanity_300 (PY ''gabe'') []) \<noteq> Inr JNull"
  by (simp add: resolve_steam_id_def strip_def str_isdigit_def rt0_def net_vanity_300_def
        http_request_def vanity_try_def raise_for_status_def json_of_def vanity_found_def
        is_num_def the_num_def)

lemma llm_try_Inl: "llm_try (Inl e) = Inl e"
  by (simp add: llm_try_def)

lemma llm_try_Inr:
  "llm_try (Inr resp) =
     (if 400 \<le> status_code resp \<and> status_code resp < 600 then Inl HTTPError
      else case body resp of
        None \<Rightarrow> Inl JSONDecodeError
      | Some j \<Rightarrow> ebind (py_item j (PY ''message'')) (\<lambda>m. py_item m (PY ''content'')))"
  by (simp add: llm_try_def raise_for_status_def json_of_def split: option.splits)

lemma llm_message_unfold:
  "llm_message rt net message log =
     (Inr (py_str rt (case llm_try (net log (chat_request message)) of
                        Inl e \<Rightarrow> JStr apology | Inr a \<Rightarrow> a)
           @ PY ''\<newline>\<newline>'' @ message),
      log @ [chat_request message])"
  by (simp add: llm_message_def Let_def http_request_def)

text \<open>
  Claim C8, amended. \<open>llm_message\<close> issues one request and never raises; its result is
  always a text, a blank line and the digest unchanged. The text is the fixed apology
  on a transport error or timeout, on a 4xx or 5xx status, on a body that is not JSON
  and on a body without \<open>message.content\<close>; otherwise it is the generated content.
\<close>

theorem llm_message_fallback:
  "snd (llm_message rt net message log) = log @ [chat_request message]
   \<and> (\<exists>text. fst (llm_message rt net message log) = Inr (text @ PY ''\<newline>\<newline>'' @ message))
   \<and> (\<forall>e. net log (chat_request message) = Inl e
         \<longrightarrow> fst (llm_message rt net message log) = Inr (apology @ PY ''\<newline>\<newline>'' @ message))
   \<and> (\<forall>resp. net log (chat_request message) = Inr resp
           \<and> 400 \<le> status_code resp \<and> status_code resp < 600
         \<longrightarrow> fst (llm_message rt net message log) = Inr (apology @ PY ''\<newline>\<newline>'' @ message))
   \<and> (\<forall>resp. net log (chat_request message) = Inr resp \<and> body resp = None
         \<longrightarrow> fst (llm_message rt net message log) = Inr (apology @ PY ''\<newline>\<newline>'' @ message))
   \<and> (\<forall>resp j e. net log (chat_request message) = Inr resp \<and> body resp = Some j
           \<and> ebind (py_item j (PY ''message'')) (\<lambda>m. py_item m (PY ''content'')) = Inl e
         \<longrightarrow> fst (llm_message rt net message log) = Inr (apology @ PY ''\<newline>\<newline>'' @ message))
   \<and> (\<forall>resp j answer. net log (chat_request message) = Inr resp
           \<and> \<not> (400 \<le> status_code resp \<and> status_code resp < 600) \<and> body resp = Some j
           \<and> ebind (py_item j (PY ''message'')) (\<lambda>m. py_item m (PY ''content'')) = Inr answer
         \<longrightarrow> fst (llm_message rt net message log)
               = Inr (py_str rt answer @ PY ''\<newline>\<newline>'' @ message))"
  unfolding llm_message_unfold
  by (intro conjI allI impI; (elim conjE)?) (auto simp add: llm_try_Inl llm_try_Inr)

theorem llm_message_fallback_witness:
  "net_down [] (chat_request (PY ''Steam User:'')) = Inl RequestException
   \<and> llm_message rt0 net_down (PY ''Steam User:'') []
       = (Inr (apology @ PY ''\<newline>\<newline>'' @ PY ''Steam User:''), [chat_request (PY ''Steam User:'')])"
proof -
  have n: "net_down [] (chat_request (PY ''Steam User:'')) = Inl RequestException"
    by (simp add: net_down_def)
  from llm_message_fallback [of rt0 net_down "PY ''Steam User:''" "[]"] n show ?thesis
    by (simp add: prod_eq_iff)
qed

text \<open>
  Claim C8 as stated fails: on a response with status 300 and a well-formed body the
  generated text is relayed, not the apology.
\<close>

theorem llm_message_non_2xx_counterexample:
  "net_chat_300 [] (chat_request (PY ''Steam User:''))
       = Inr \<lparr>status_code = 300, body = Some chat_reply\<rparr>
   \<and> fst (llm_message rt0 net_chat_300 (PY ''Steam User:'') [])
       = Inr (PY ''GG'' @ PY ''\<newline>\<newline>'' @ PY ''Steam User:'')
   \<and> fst (llm_message rt0 net_chat_300 (PY ''Steam User:'') [])
       \<noteq> Inr (apology @ PY ''\<newline>\<newline>'' @ PY ''Steam User:'')"
  by (simp add: llm_message_def net_chat_300_def http_request_def llm_try_def
        raise_for_status_def json_of_def chat_reply_def apology_def)

subsection \<open>The digest\<close>

lemma ebind_eq_Inr: "ebind m f = Inr y \<longleftrightarrow> (\<exists>x. m = Inr x \<and> f x = Inr y)"
  by (cases m) simp_all

lemma simplify_Inr_iff:
  "simplify_steam_profile rt data = Inr dg \<longleftrightarrow>
     (\<exists>name persona country created created_str countries total total_playtime titles.
        get_or (profile data) (PY ''realname'') (PY ''Not specified'') = Inr name
      \<and> get_or (profile data) (PY ''personaname'') (PY ''No nickname'') = Inr persona
      \<and> get_or (profile data) (PY ''loccountrycode'') (PY ''Unknown'') = Inr country
      \<and> py_get (profile data) (PY ''timecreated'') JNull = Inr created
      \<and> created_string rt created = Inr created_str
      \<and> friend_countries (friends data) [] = Inr countries
      \<and> sum_playtime (owned_games_sample data) 0 = Inr total
      \<and> int_true_div total 60 = Inr total_playtime
      \<and> game_titles (owned_games_sample data) = Inr titles
      \<and> dg = digest_text (py_str rt persona) (py_str rt name) (py_str rt country) created_str
               (show_nat (length (friends data))) (top_countries rt countries)
               (show_nat (length (owned_games_sample data))) (format_1f total_playtime) titles)"
  by (auto simp: simplify_steam_profile_def Let_def ebind_eq_Inr)

lemma get_or_falsy:
  assumes "py_get p k JNull = Inr v" and "\<not> truthy v"
  shows "get_or p k dflt = Inr (JStr dflt)"
  using assms by (simp add: get_or_def py_or_def)






lemmas eval_simplify =
  simplify_steam_profile_def get_or_def py_or_def created_string_def
  int_true_div_def nearest_double_def round_div_def bit_length.simps Let_def
  format_1f_def show_nat.simps top_countries_def top5_def country_entry_def show_int_def
  game_titles_def py_join_def digest_text_def


lemma simplify_agg1: "simplify_steam_profile rt0 agg1 = Inr digest1"
  by (simp add: eval_simplify agg1_def rt0_def digest1_def)





lemma list_all_take: "list_all P xs \<Longrightarrow> list_all P (take n xs)"
  by (auto simp: list_all_iff dest: in_set_takeD)












text \<open>
  Claim C9. When the real name of the profile is absent (\<open>get\<close> gives \<open>None\<close>) or
  empty, the real-name field of the digest is the fixed text \<open>Not specified\<close>; when
  the display name is absent or empty, the display-name field is the fixed text
  \<open>No nickname\<close>.
\<close>

theorem missing_names_default:
  assumes "simplify_steam_profile rt data = Inr dg"
  shows "(\<forall>v. py_get (profile data) (PY ''realname'') JNull = Inr v \<and> (v = JNull \<or> v = JStr [])
            \<longrightarrow> (\<exists>persona country created n_friends top n_games hours titles.
                   dg = digest_text persona (PY ''Not specified'') country created
                          n_friends top n_games hours titles))
       \<and> (\<forall>v. py_get (profile data) (PY ''personaname'') JNull = Inr v \<and> (v = JNull \<or> v = JStr [])
            \<longrightarrow> (\<exists>name country created n_friends top n_games hours titles.
                   dg = digest_text (PY ''No nickname'') name country created
                          n_friends top n_games hours titles))"
proof (intro conjI allI impI)
  fix v
  assume a: "py_get (profile data) (PY ''realname'') JNull = Inr v \<and> (v = JNull \<or> v = JStr [])"
  then have "\<not> truthy v" by auto
  with a have "get_or (profile data) (PY ''realname'') (PY ''Not specified'') = Inr (JStr (PY ''Not specified''))"
    using get_or_falsy by blast
  with assms show "\<exists>persona country created n_friends top n_games hours titles.
      dg = digest_text persona (PY ''Not specified'') country created n_friends top n_games hours titles"
    unfolding simplify_Inr_iff by (metis Inr_inject py_str.simps(4))
next
  fix v
  assume a: "py_get (profile data) (PY ''personaname'') JNull = Inr v \<and> (v = JNull \<or> v = JStr [])"
  then have "\<not> truthy v" by auto
  with a have "get_or (profile data) (PY ''personaname'') (PY ''No nickname'') = Inr (JStr (PY ''No nickname''))"
    using get_or_falsy by blast
  with assms show "\<exists>name country created n_friends top n_games hours titles.
      dg = digest_text (PY ''No nickname'') name country created n_friends top n_games hours titles"
    unfolding simplify_Inr_iff by (metis Inr_inject py_str.simps(4))
qed

theorem missing_names_default_witness:
  "simplify_steam_profile rt0 agg1 = Inr digest1
   \<and> py_get (profile agg1) (PY ''realname'') JNull = Inr (JStr [])
   \<and> py_get (profile agg1) (PY ''personaname'') JNull = Inr JNull
   \<and> (\<exists>persona country created n_friends top n_games hours titles.
         digest1 = digest_text persona (PY ''Not specified'') country created
                     n_friends top n_games hours titles)
   \<and> (\<exists>name country created n_friends top n_games hours titles.
         digest1 = digest_text (PY ''No nickname'') name country created
                     n_friends top n_games hours titles)"
proof -
  have e: "simplify_steam_profile rt0 agg1 = Inr digest1"
    by (rule simplify_agg1)
  have r: "py_get (profile agg1) (PY ''realname'') JNull = Inr (JStr [])"
    by (simp add: agg1_def)
  have p: "py_get (profile agg1) (PY ''personaname'') JNull = Inr JNull"
    by (simp add: agg1_def)
  from missing_names_default [OF e] r p e show ?thesis
    by blast
qed

lemma py_str_utc_update: "py_str (rt\<lparr>utc_mdY := f\<rparr>) v = py_str rt v"
  by (cases v) simp_all

lemma country_entry_utc_update: "country_entry (rt\<lparr>utc_mdY := f\<rparr>) = country_entry rt"
  by (rule ext) (simp add: country_entry_def py_str_utc_update)

lemma top_countries_utc_update: "top_countries (rt\<lparr>utc_mdY := f\<rparr>) d = top_countries rt d"
  by (simp add: top_countries_def country_entry_utc_update)

text \<open>
  Claim C10. When the profile carries the creation time 0, the creation field of the
  digest is \<open>Unknown\<close>, and the function that renders calendar dates has no
  influence on the result: the test is \<open>if created\<close>, and 0 is false.
\<close>

theorem epoch_zero_unknown:
  assumes "py_get (profile data) (PY ''timecreated'') JNull = Inr (JInt 0)"
  shows "(\<forall>dg. simplify_steam_profile rt data = Inr dg
            \<longrightarrow> (\<exists>persona name country n_friends top n_games hours titles.
                   dg = digest_text persona name country (PY ''Unknown'')
                          n_friends top n_games hours titles))
       \<and> (\<forall>f. simplify_steam_profile (rt\<lparr>utc_mdY := f\<rparr>) data = simplify_steam_profile rt data)"
proof (intro conjI allI impI)
  fix dg
  assume "simplify_steam_profile rt data = Inr dg"
  with assms obtain persona name country created_str countries total_playtime titles where
    c: "created_string rt (JInt 0) = Inr created_str" and
    dg: "dg = digest_text (py_str rt persona) (py_str rt name) (py_str rt country) created_str
               (show_nat (length (friends data))) (top_countries rt countries)
               (show_nat (length (owned_games_sample data))) (format_1f total_playtime) titles"
    unfolding simplify_Inr_iff by auto
  from c have "created_str = PY ''Unknown''"
    by (simp add: created_string_def)
  with dg show "\<exists>persona name country n_friends top n_games hours titles.
      dg = digest_text persona name country (PY ''Unknown'') n_friends top n_games hours titles"
    by blast
next
  fix f
  show "simplify_steam_profile (rt\<lparr>utc_mdY := f\<rparr>) data = simplify_steam_profile rt data"
    using assms
    by (simp add: simplify_steam_profile_def Let_def created_string_def
          py_str_utc_update top_countries_utc_update)
qed

theorem epoch_zero_unknown_witness:
  "py_get (profile agg1) (PY ''timecreated'') JNull = Inr (JInt 0)
   \<and> simplify_steam_profile rt0 agg1 = Inr digest1
   \<and> (\<exists>persona name country n_friends top n_games hours titles.
         digest1 = digest_text persona name country (PY ''Unknown'')
                     n_friends top n_games hours titles)
   \<and> simplify_steam_profile (rt0\<lparr>utc_mdY := (\<lambda>v. Inr (PY ''01/01/1970''))\<rparr>) agg1 = Inr digest1"
proof -
  have t: "py_get (profile agg1) (PY ''timecreated'') JNull = Inr (JInt 0)"
    by (simp add: agg1_def)
  have e: "simplify_steam_profile rt0 agg1 = Inr digest1"
    by (rule simplify_agg1)
  from epoch_zero_unknown [OF t, of rt0] t e show ?thesis
    by auto
qed

subsection \<open>Friend countries\<close>

lemma scalar_eq_sym: "scalar_eq a b = scalar_eq b a"
  by (cases a; cases b) auto

lemma scalar_eq_trans: "scalar_eq a b \<Longrightarrow> scalar_eq b c \<Longrightarrow> scalar_eq a c"
  by (cases a; cases b; cases c) (auto simp: is_num_def)

lemma scalar_eq_hashable: "hashable c \<Longrightarrow> scalar_eq c c"
  by (cases c) (auto simp: is_num_def)

lemma friend_countries_foldl:
  "list_all friend_record fs \<Longrightarrow>
     friend_countries fs d = Inr (foldl dict_incr d (map country_of fs))
     \<and> list_all hashable (map country_of fs)"
proof (induction fs arbitrary: d)
  case Nil
  then show ?case by simp
next
  case (Cons f fs)
  then show ?case
    by (cases f) (auto simp: friend_record_def country_of_def split: option.splits)
qed

lemma keys_dict_incr:
  "map fst (dict_incr d c) =
     (if list_ex (\<lambda>k. scalar_eq k c) (map fst d) then map fst d else map fst d @ [c])"
  by (induction d c rule: dict_incr.induct) (auto simp: list_ex_iff)

lemma keys_foldl_dict_incr: "map fst (foldl dict_incr d cs) = first_seen (map fst d) cs"
  by (induction cs arbitrary: d) (simp_all add: keys_dict_incr)

lemma stored_count_dict_incr:
  "stored_count (dict_incr d c) k = stored_count d k + (if scalar_eq k c then 1 else 0)"
proof (induction d c rule: dict_incr.induct)
  case (1 c)
  then show ?case by (simp add: stored_count_def scalar_eq_sym)
next
  case (2 k0 n kvs c)
  show ?case
  proof (cases "scalar_eq k0 c")
    case True
    then show ?thesis
      using scalar_eq_trans [of k k0 c] scalar_eq_trans [of k0 c k] scalar_eq_sym [of k k0]
        scalar_eq_sym [of k c]
      by (auto simp: stored_count_def)
  next
    case False
    then show ?thesis
      using 2 scalar_eq_trans [of k0 k c]
      by (auto simp: stored_count_def)
  qed
qed

lemma stored_count_foldl:
  "stored_count (foldl dict_incr d cs) k = stored_count d k + count_code k cs"
  by (induction cs arbitrary: d) (simp_all add: stored_count_dict_incr count_code_def)

lemma fst_set_dict_incr: "fst ` set (dict_incr d c) \<subseteq> insert c (fst ` set d)"
proof -
  have "set (map fst (dict_incr d c)) \<subseteq> insert c (set (map fst d))"
    unfolding keys_dict_incr by auto
  then show ?thesis by simp
qed

lemma dict_ok_dict_incr:
  "dict_ok d \<Longrightarrow> scalar_eq c c \<Longrightarrow> dict_ok (dict_incr d c)"
proof (induction d c rule: dict_incr.induct)
  case (1 c)
  then show ?case by simp
next
  case (2 k0 n kvs c)
  show ?case
  proof (cases "scalar_eq k0 c")
    case True
    with 2 show ?thesis by simp
  next
    case False
    have "\<not> list_ex (\<lambda>x. scalar_eq (fst x) k0) (dict_incr kvs c)"
    proof
      assume "list_ex (\<lambda>x. scalar_eq (fst x) k0) (dict_incr kvs c)"
      then obtain x where x: "x \<in> set (dict_incr kvs c)" and e: "scalar_eq (fst x) k0"
        by (auto simp: list_ex_iff)
      from x fst_set_dict_incr [of kvs c] have "fst x = c \<or> fst x \<in> fst ` set kvs"
        by auto
      then show False
      proof
        assume "fst x = c"
        with e False show False by (simp add: scalar_eq_sym)
      next
        assume "fst x \<in> fst ` set kvs"
        with e "2.prems"(1) show False by (auto simp: list_ex_iff)
      qed
    qed
    with 2 False show ?thesis by simp
  qed
qed

lemma dict_ok_foldl:
  "dict_ok d \<Longrightarrow> list_all hashable cs \<Longrightarrow> dict_ok (foldl dict_incr d cs)"
  by (induction cs arbitrary: d) (simp_all add: dict_ok_dict_incr scalar_eq_hashable)

lemma stored_count_member:
  "dict_ok d \<Longrightarrow> kv \<in> set d \<Longrightarrow> stored_count d (fst kv) = snd kv"
proof (induction d)
  case Nil
  then show ?case by simp
next
  case (Cons a d)
  show ?case
  proof (cases "kv = a")
    case True
    with Cons.prems show ?thesis by (simp add: stored_count_def)
  next
    case False
    with Cons.prems have m: "kv \<in> set d" by simp
    with Cons.prems have "\<not> scalar_eq (fst a) (fst kv)"
      by (auto simp: list_ex_iff scalar_eq_sym)
    moreover from Cons m have "stored_count d (fst kv) = snd kv" by simp
    ultimately show ?thesis by (simp add: stored_count_def)
  qed
qed

lemma tally_foldl:
  assumes "list_all hashable cs"
  shows "foldl dict_incr [] cs = map (\<lambda>c. (c, count_code c cs)) (first_seen [] cs)"
proof -
  let ?d = "foldl dict_incr [] cs"
  have ok: "dict_ok ?d" using assms by (simp add: dict_ok_foldl)
  have "?d = map (\<lambda>kv. (fst kv, snd kv)) ?d" by simp
  also have "\<dots> = map (\<lambda>kv. (fst kv, count_code (fst kv) cs)) ?d"
  proof (rule map_cong [OF refl])
    fix kv assume "kv \<in> set ?d"
    have "stored_count [] (fst kv) = 0" by (simp add: stored_count_def)
    with stored_count_member [OF ok \<open>kv \<in> set ?d\<close>] stored_count_foldl [of "[]" cs "fst kv"]
    have "snd kv = count_code (fst kv) cs" by simp
    then show "(fst kv, snd kv) = (fst kv, count_code (fst kv) cs)" by simp
  qed
  also have "\<dots> = map (\<lambda>c. (c, count_code c cs)) (map fst ?d)"
    by (simp add: comp_def)
  also have "map fst ?d = first_seen [] cs"
    using keys_foldl_dict_incr [of "[]" cs] by simp
  finally show ?thesis .
qed

lemma friend_countries_tally:
  assumes "list_all friend_record fs"
  shows "friend_countries fs [] =
     Inr (map (\<lambda>c. (c, count_code c (map country_of fs))) (first_seen [] (map country_of fs)))"
  using friend_countries_foldl [OF assms, of "[]"] tally_foldl by simp

lemma top5_ranked:
  "\<exists>ranked. top5 d = take 5 ranked \<and> mset ranked = mset d
      \<and> sorted_wrt (\<lambda>a b. snd b \<le> snd a) ranked
      \<and> (\<forall>n. filter (\<lambda>x. snd x = n) ranked = filter (\<lambda>x. snd x = n) d)"
proof (intro exI [of _ "sort_key (\<lambda>x. - snd x) d"] conjI allI)
  show "top5 d = take 5 (sort_key (\<lambda>x. - snd x) d)"
    by (simp add: top5_def)
  show "mset (sort_key (\<lambda>x. - snd x) d) = mset d"
    by simp
  have "sorted (map (\<lambda>x. - snd x) (sort_key (\<lambda>x. - snd x) d))"
    by (rule sorted_sort_key)
  then show "sorted_wrt (\<lambda>a b. snd b \<le> snd a) (sort_key (\<lambda>x. - snd x) d)"
    by (simp add: sorted_map)
  fix n
  from sort_key_stable [of "\<lambda>x. - snd x" "- n" d]
  show "filter (\<lambda>x. snd x = n) (sort_key (\<lambda>x. - snd x) d) = filter (\<lambda>x. snd x = n) d"
    by simp
qed

lemma top_countries_example:
  "top_countries rt [(JStr (PY ''US''), 5), (JStr (PY ''RU''), 5), (JStr (PY ''FR''), 2)]
     = PY ''5 from US, 5 from RU, 2 from FR''"
  by (simp add: top_countries_def top5_def country_entry_def show_int_def show_nat.simps)

lemma simplify_agg12: "simplify_steam_profile rt0 agg12 = Inr digest12"
  by (simp add: eval_simplify agg12_def friends12_def player0_def sid0_def rt0_def digest12_def)

text \<open>
  Claim C5. The loop over the friends counts them by country code, a friend without a
  code under \<open>??\<close>, with the codes in the order in which they are first met. The digest
  lists the first five entries of that tally sorted by descending count, entries with
  equal counts in the order of the tally, each as count \<open>from\<close> code, joined by a comma
  and a space on the line \<open>- Top friend countries:\<close> of the \<open>Friends:\<close> section, below
  the number of friends. For the tally US 5, RU 5, FR 2 these are the three entries with
  their counts, US before RU.
\<close>

theorem friend_country_ranking:
  "(list_all friend_record fs \<longrightarrow>
      friend_countries fs [] =
        Inr (map (\<lambda>c. (c, count_code c (map country_of fs))) (first_seen [] (map country_of fs))))
   \<and> (\<forall>kvs. map_of kvs (PY ''loccountrycode'') = None
          \<longrightarrow> country_of (JObj kvs) = JStr (PY ''??''))
   \<and> (\<exists>ranked. top5 d = take 5 ranked \<and> mset ranked = mset d
          \<and> sorted_wrt (\<lambda>a b. snd b \<le> snd a) ranked
          \<and> (\<forall>n. filter (\<lambda>x. snd x = n) ranked = filter (\<lambda>x. snd x = n) d))
   \<and> top_countries rt d =
        join (PY '', '') (map (\<lambda>x. show_int (snd x) @ PY '' from '' @ py_str rt (fst x)) (top5 d))
   \<and> top_countries rt [(JStr (PY ''US''), 5), (JStr (PY ''RU''), 5), (JStr (PY ''FR''), 2)]
        = PY ''5 from US, 5 from RU, 2 from FR''
   \<and> (\<forall>dg. simplify_steam_profile rt data = Inr dg \<longrightarrow>
         (\<exists>countries persona name country created hours titles.
            friend_countries (friends data) [] = Inr countries
          \<and> dg = PY ''Steam User:\<newline>- Display name: '' @ persona @
                 PY ''\<newline>- Real name: '' @ name @
                 PY ''\<newline>- Country: '' @ country @
                 PY ''\<newline>- Account created: '' @ created @
                 PY ''\<newline>\<newline>Friends:\<newline>- Total friends: '' @
                   show_nat (length (friends data)) @
                 PY ''\<newline>- Top friend countries: '' @
                   join (PY '', '')
                     (map (\<lambda>x. show_int (snd x) @ PY '' from '' @ py_str rt (fst x))
                        (top5 countries)) @
                 PY ''\<newline>\<newline>Gaming activity:\<newline>- Sample of owned games: '' @
                   show_nat (length (owned_games_sample data)) @
                 PY ''\<newline>- Total playtime (in sample): ~'' @ hours @
                 PY '' hours\<newline>- Example games: '' @ titles))"
proof (intro conjI allI impI)
  assume "list_all friend_record fs"
  then show "friend_countries fs [] =
      Inr (map (\<lambda>c. (c, count_code c (map country_of fs))) (first_seen [] (map country_of fs)))"
    by (rule friend_countries_tally)
next
  fix kvs :: "(pystr \<times> json) list"
  assume "map_of kvs (PY ''loccountrycode'') = None"
  then show "country_of (JObj kvs) = JStr (PY ''??'')"
    by (simp add: country_of_def)
next
  show "\<exists>ranked. top5 d = take 5 ranked \<and> mset ranked = mset d
          \<and> sorted_wrt (\<lambda>a b. snd b \<le> snd a) ranked
          \<and> (\<forall>n. filter (\<lambda>x. snd x = n) ranked = filter (\<lambda>x. snd x = n) d)"
    by (rule top5_ranked)
next
  show "top_countries rt d =
        join (PY '', '') (map (\<lambda>x. show_int (snd x) @ PY '' from '' @ py_str rt (fst x)) (top5 d))"
    by (simp add: top_countries_def country_entry_def [abs_def])
next
  show "top_countries rt [(JStr (PY ''US''), 5), (JStr (PY ''RU''), 5), (JStr (PY ''FR''), 2)]
        = PY ''5 from US, 5 from RU, 2 from FR''"
    by (rule top_countries_example)
next
  fix dg
  assume "simplify_steam_profile rt data = Inr dg"
  then obtain name persona country created_str countries total_playtime t where
    fc: "friend_countries (friends data) [] = Inr countries" and
    dg: "dg = digest_text (py_str rt persona) (py_str rt name) (py_str rt country) created_str
               (show_nat (length (friends data))) (top_countries rt countries)
               (show_nat (length (owned_games_sample data))) (format_1f total_playtime) t"
    unfolding simplify_Inr_iff by blast
  have tc: "top_countries rt countries =
      join (PY '', '')
        (map (\<lambda>x. show_int (snd x) @ PY '' from '' @ py_str rt (fst x)) (top5 countries))"
    by (simp add: top_countries_def country_entry_def [abs_def])
  have "dg = PY ''Steam User:\<newline>- Display name: '' @ py_str rt persona @
                 PY ''\<newline>- Real name: '' @ py_str rt name @
                 PY ''\<newline>- Country: '' @ py_str rt country @
                 PY ''\<newline>- Account created: '' @ created_str @
                 PY ''\<newline>\<newline>Friends:\<newline>- Total friends: '' @
                   show_nat (length (friends data)) @
                 PY ''\<newline>- Top friend countries: '' @
                   join (PY '', '')
                     (map (\<lambda>x. show_int (snd x) @ PY '' from '' @ py_str rt (fst x))
                        (top5 countries)) @
                 PY ''\<newline>\<newline>Gaming activity:\<newline>- Sample of owned games: '' @
                   show_nat (length (owned_games_sample data)) @
                 PY ''\<newline>- Total playtime (in sample): ~'' @ format_1f total_playtime @
                 PY '' hours\<newline>- Example games: '' @ t"
    unfolding dg digest_text_def tc by simp
  with fc show "\<exists>countries persona name country created hours titles.
            friend_countries (friends data) [] = Inr countries
          \<and> dg = PY ''Steam User:\<newline>- Display name: '' @ persona @
                 PY ''\<newline>- Real name: '' @ name @
                 PY ''\<newline>- Country: '' @ country @
                 PY ''\<newline>- Account created: '' @ created @
                 PY ''\<newline>\<newline>Friends:\<newline>- Total friends: '' @
                   show_nat (length (friends data)) @
                 PY ''\<newline>- Top friend countries: '' @
                   join (PY '', '')
                     (map (\<lambda>x. show_int (snd x) @ PY '' from '' @ py_str rt (fst x))
                        (top5 countries)) @
                 PY ''\<newline>\<newline>Gaming activity:\<newline>- Sample of owned games: '' @
                   show_nat (length (owned_games_sample data)) @
                 PY ''\<newline>- Total playtime (in sample): ~'' @ hours @
                 PY '' hours\<newline>- Example games: '' @ titles"
    by blast
qed

theorem friend_country_ranking_witness:
  "list_all friend_record friends12
   \<and> friend_countries friends12 []
       = Inr [(JStr (PY ''US''), 5), (JStr (PY ''RU''), 5), (JStr (PY ''FR''), 2)]
   \<and> top5 [(JStr (PY ''US''), 5), (JStr (PY ''RU''), 5), (JStr (PY ''FR''), 2)]
       = [(JStr (PY ''US''), 5), (JStr (PY ''RU''), 5), (JStr (PY ''FR''), 2)]
   \<and> top_countries rt0 [(JStr (PY ''US''), 5), (JStr (PY ''RU''), 5), (JStr (PY ''FR''), 2)]
       = PY ''5 from US, 5 from RU, 2 from FR''
   \<and> friends agg12 = friends12
   \<and> simplify_steam_profile rt0 agg12 = Inr digest12
   \<and> (\<exists>persona name country created hours titles.
         digest12 =
           PY ''Steam User:\<newline>- Display name: '' @ persona @
           PY ''\<newline>- Real name: '' @ name @
           PY ''\<newline>- Country: '' @ country @
           PY ''\<newline>- Account created: '' @ created @
           PY ''\<newline>\<newline>Friends:\<newline>- Total friends: 12'' @
           PY ''\<newline>- Top friend countries: 5 from US, 5 from RU, 2 from FR'' @
           PY ''\<newline>\<newline>Gaming activity:\<newline>- Sample of owned games: 0'' @
           PY ''\<newline>- Total playtime (in sample): ~'' @ hours @
           PY '' hours\<newline>- Example games: '' @ titles)"
proof -
  have r: "list_all friend_record friends12"
    by (simp add: friends12_def friend_record_def)
  have c: "map country_of friends12 =
      map JStr [PY ''US'', PY ''RU'', PY ''FR'', PY ''US'', PY ''RU'', PY ''US'',
                PY ''RU'', PY ''US'', PY ''RU'', PY ''FR'', PY ''US'', PY ''RU'']"
    by (simp add: friends12_def country_of_def)
  have t: "top5 [(JStr (PY ''US''), 5), (JStr (PY ''RU''), 5), (JStr (PY ''FR''), 2)]
       = [(JStr (PY ''US''), 5), (JStr (PY ''RU''), 5), (JStr (PY ''FR''), 2)]"
    by (simp add: top5_def)
  have a: "friends agg12 = friends12" and g: "owned_games_sample agg12 = []"
    by (simp_all add: agg12_def)
  have l: "length friends12 = 12"
    by (simp add: friends12_def)
  have s: "simplify_steam_profile rt0 agg12 = Inr digest12"
    by (rule simplify_agg12)
  note inst = friend_country_ranking [of friends12 "[]" rt0 agg12]
  from inst r
  have f: "friend_countries friends12 [] =
      Inr (map (\<lambda>c. (c, count_code c (map country_of friends12)))
            (first_seen [] (map country_of friends12)))"
    and e: "top_countries rt0 [(JStr (PY ''US''), 5), (JStr (PY ''RU''), 5), (JStr (PY ''FR''), 2)]
       = PY ''5 from US, 5 from RU, 2 from FR''"
    by blast+
  have v: "friend_countries friends12 []
       = Inr [(JStr (PY ''US''), 5), (JStr (PY ''RU''), 5), (JStr (PY ''FR''), 2)]"
    unfolding f c by (simp add: count_code_def)
  from inst s obtain countries persona name country created hours titles where
    fc: "friend_countries (friends agg12) [] = Inr countries" and
    dg: "digest12 = PY ''Steam User:\<newline>- Display name: '' @ persona @
                 PY ''\<newline>- Real name: '' @ name @
                 PY ''\<newline>- Country: '' @ country @
                 PY ''\<newline>- Account created: '' @ created @
                 PY ''\<newline>\<newline>Friends:\<newline>- Total friends: '' @
                   show_nat (length (friends agg12)) @
                 PY ''\<newline>- Top friend countries: '' @
                   join (PY '', '')
                     (map (\<lambda>x. show_int (snd x) @ PY '' from '' @ py_str rt0 (fst x))
                        (top5 countries)) @
                 PY ''\<newline>\<newline>Gaming activity:\<newline>- Sample of owned games: '' @
                   show_nat (length (owned_games_sample agg12)) @
                 PY ''\<newline>- Total playtime (in sample): ~'' @ hours @
                 PY '' hours\<newline>- Example games: '' @ titles"
    by blast
  from fc v have cs: "countries = [(JStr (PY ''US''), 5), (JStr (PY ''RU''), 5), (JStr (PY ''FR''), 2)]"
    by (simp add: a)
  have "digest12 =
           PY ''Steam User:\<newline>- Display name: '' @ persona @
           PY ''\<newline>- Real name: '' @ name @
           PY ''\<newline>- Country: '' @ country @
           PY ''\<newline>- Account created: '' @ created @
           PY ''\<newline>\<newline>Friends:\<newline>- Total friends: 12'' @
           PY ''\<newline>- Top friend countries: 5 from US, 5 from RU, 2 from FR'' @
           PY ''\<newline>\<newline>Gaming activity:\<newline>- Sample of owned games: 0'' @
           PY ''\<newline>- Total playtime (in sample): ~'' @ hours @
           PY '' hours\<newline>- Example games: '' @ titles"
    by (subst dg) (simp add: cs a g l top5_def show_int_def show_nat.simps)
  with r v t e a s show ?thesis by blast
qed

subsection \<open>The game sample\<close>

lemma sorted_reverse_stable:
  fixes f :: "'a \<Rightarrow> int"
  shows "rev (sort_key f (rev xs)) = sort_key (\<lambda>x. - f x) xs"
proof (rule properties_for_sort_key [symmetric])
  show "mset (rev (sort_key f (rev xs))) = mset xs"
    by simp
next
  fix k
  have "filter (\<lambda>x. f x = f k) (rev (sort_key f (rev xs)))
          = rev (filter (\<lambda>x. f x = f k) (sort_key f (rev xs)))"
    by (simp add: rev_filter)
  also have "\<dots> = rev (filter (\<lambda>x. f x = f k) (rev xs))"
    by (simp add: sort_key_stable)
  also have "\<dots> = filter (\<lambda>x. f x = f k) xs"
    by (simp add: rev_filter)
  finally show "filter (\<lambda>x. - f k = - f x) (rev (sort_key f (rev xs)))
          = filter (\<lambda>x. - f k = - f x) xs"
    by (simp add: eq_commute)
next
  have "sorted (map f (sort_key f (rev xs)))"
    by (rule sorted_sort_key)
  then have "sorted_wrt (\<lambda>a b. f a \<le> f b) (sort_key f (rev xs))"
    by (simp add: sorted_map)
  then have "sorted_wrt (\<lambda>a b. f b \<le> f a) (rev (sort_key f (rev xs)))"
    by (simp add: sorted_wrt_rev)
  then show "sorted (map (\<lambda>x. - f x) (rev (sort_key f (rev xs))))"
    by (simp add: sorted_map)
qed

lemma insort_key_paired:
  "insort_key (\<lambda>kx. F (fst kx)) (kf g, g) (map (\<lambda>g. (kf g, g)) ys)
     = map (\<lambda>g. (kf g, g)) (insort_key (\<lambda>g. F (kf g)) g ys)"
  by (induction ys) simp_all

lemma sort_key_paired:
  "sort_key (\<lambda>kx. F (fst kx)) (map (\<lambda>g. (kf g, g)) gs)
     = map (\<lambda>g. (kf g, g)) (sort_key (\<lambda>g. F (kf g)) gs)"
  by (induction gs) (simp_all add: insort_key_paired)

lemma playtime_keys:
  "list_all game_entry gs \<Longrightarrow>
     map_err playtime_key gs = Inr (map key_value gs) \<and> list_all (\<lambda>g. is_num (key_value g)) gs"
proof (induction gs)
  case Nil
  then show ?case by simp
next
  case (Cons g gs)
  then show ?case
    by (cases g)
      (auto simp: game_entry_def key_value_def playtime_key_def is_num_def split: option.splits)
qed

lemma playtime_of_key_value: "playtime_of g = the_num (key_value g)"
  by (simp add: playtime_of_def key_value_def the_num_def split: sum.splits)

lemma top_games_ranked:
  assumes "list_all game_entry games"
  shows "top_games rt (JArr games) = Inr (take 10 (sort_key (\<lambda>g. - playtime_of g) games))"
proof -
  let ?kxs = "map (\<lambda>g. (key_value g, g)) games"
  from playtime_keys [OF assms] have
    k: "map_err playtime_key games = Inr (map key_value games)" and
    n: "list_all (\<lambda>g. is_num (key_value g)) games"
    by simp_all
  have z: "zip (map key_value games) games = ?kxs"
    by (simp add: zip_map1 zip_same_conv_map)
  from n have "list_all (\<lambda>kx. is_num (fst kx)) ?kxs"
    by (simp add: list_all_iff)
  then have "sorted_reverse rt ?kxs
      = Inr (map snd (rev (sort_key (\<lambda>kx. the_num (fst kx)) (rev ?kxs))))"
    by (simp add: sorted_reverse_def)
  also have "rev (sort_key (\<lambda>kx. the_num (fst kx)) (rev ?kxs))
      = sort_key (\<lambda>kx. - the_num (fst kx)) ?kxs"
    by (rule sorted_reverse_stable)
  also have "\<dots> = map (\<lambda>g. (key_value g, g)) (sort_key (\<lambda>g. - the_num (key_value g)) games)"
    by (rule sort_key_paired)
  also have "map snd \<dots> = sort_key (\<lambda>g. - playtime_of g) games"
    by (simp add: comp_def playtime_of_key_value)
  finally have "sorted_reverse rt ?kxs = Inr (sort_key (\<lambda>g. - playtime_of g) games)" .
  with k z show ?thesis
    by (simp add: top_games_def)
qed

lemma fetch_games_ok:
  assumes "net log (owned_games_request rt steam_id) = Inr resp"
    and "status_code resp = 200"
    and "get2 resp (PY ''response'') (PY ''games'') = Inr all_games"
    and "top_games rt all_games = Inr owned_games"
  shows "fetch_games rt net steam_id log = (owned_games, log @ [owned_games_request rt steam_id])"
  using assms by (simp add: fetch_games_def http_request_def)

lemma ranked_properties:
  fixes pt :: "'a \<Rightarrow> int"
  defines "ranked xs \<equiv> sort_key (\<lambda>g. - pt g) xs"
  shows "mset (ranked xs) = mset xs"
    and "sorted_wrt (\<lambda>a b. pt b \<le> pt a) (ranked xs)"
    and "filter (\<lambda>g. pt g = n) (ranked xs) = filter (\<lambda>g. pt g = n) xs"
proof -
  show "mset (ranked xs) = mset xs"
    by (simp add: ranked_def)
  have "sorted (map (\<lambda>g. - pt g) (ranked xs))"
    unfolding ranked_def by (rule sorted_sort_key)
  then show "sorted_wrt (\<lambda>a b. pt b \<le> pt a) (ranked xs)"
    by (simp add: sorted_map)
  from sort_key_stable [of "\<lambda>g. - pt g" "- n" xs]
  show "filter (\<lambda>g. pt g = n) (ranked xs) = filter (\<lambda>g. pt g = n) xs"
    by (simp add: ranked_def)
qed

lemma top_of_distinct:
  fixes pt :: "'a \<Rightarrow> int"
  assumes m: "mset ys = mset xs"
    and s: "sorted_wrt (\<lambda>a b. pt b \<le> pt a) ys"
    and d: "distinct (map pt xs)"
    and l: "k \<le> length xs"
  shows "length (take k ys) = k"
    and "sorted_wrt (\<lambda>a b. pt b < pt a) (take k ys)"
    and "set (take k ys) \<subseteq> set xs"
    and "\<forall>g\<in>set xs. g \<notin> set (take k ys) \<longrightarrow> (\<forall>t\<in>set (take k ys). pt g < pt t)"
proof -
  from m have len: "length ys = length xs" by (rule mset_eq_length)
  from m have st: "set ys = set xs" by (rule mset_eq_setD)
  from m have "mset (map pt ys) = mset (map pt xs)" by simp
  with d have dy: "distinct (map pt ys)" by (metis distinct_count_atmost_1 set_mset_mset mset_eq_setD)
  have strict: "sorted_wrt (\<lambda>a b. pt b < pt a) ys"
  proof -
    have "sorted_wrt (\<lambda>a b. pt b \<le> pt a \<and> pt a \<noteq> pt b) ys"
      using s dy
    proof (induction ys)
      case Nil
      then show ?case by simp
    next
      case (Cons y ys)
      then show ?case by (auto simp: image_iff)
    qed
    then show ?thesis
      by (rule sorted_wrt_mono_rel [rotated]) auto
  qed
  show "length (take k ys) = k" using l len by simp
  have split: "ys = take k ys @ drop k ys" by simp
  from strict split show "sorted_wrt (\<lambda>a b. pt b < pt a) (take k ys)"
    by (metis sorted_wrt_append)
  show "set (take k ys) \<subseteq> set xs"
    using st by (auto dest: in_set_takeD)
  show "\<forall>g\<in>set xs. g \<notin> set (take k ys) \<longrightarrow> (\<forall>t\<in>set (take k ys). pt g < pt t)"
  proof (intro ballI impI)
    fix g t
    assume "g \<in> set xs" and "g \<notin> set (take k ys)" and t: "t \<in> set (take k ys)"
    have "set ys = set (take k ys) \<union> set (drop k ys)"
      by (metis append_take_drop_id set_append)
    with st \<open>g \<in> set xs\<close> \<open>g \<notin> set (take k ys)\<close> have "g \<in> set (drop k ys)" by blast
    moreover from strict have "sorted_wrt (\<lambda>a b. pt b < pt a) (take k ys @ drop k ys)"
      by simp
    ultimately show "pt g < pt t"
      using t unfolding sorted_wrt_append by blast
  qed
qed

lemma playtime_of_game: "playtime_of (game n t) = t"
  by (simp add: playtime_of_def playtime_key_def game_def the_num_def)

lemma game_entry_game: "game_entry (game n t)"
  by (simp add: game_entry_def game_def is_num_def)

lemma top_games_games15:
  "take 10 (sort_key (\<lambda>g. - playtime_of g) games15) =
     [game ''B'' 150, game ''D'' 140, game ''F'' 130, game ''H'' 120, game ''J'' 110,
      game ''K'' 100, game ''I'' 90, game ''L'' 80, game ''G'' 70, game ''M'' 60]"
  by (simp add: games15_def playtime_of_game)

text \<open>
  Claim C4. When the owned-games request is answered with status 200 and a list of game
  entries, the retained sample is the first ten elements of that list sorted by playtime
  in descending order, entries with equal playtime in their original order: the sorted
  list is a permutation of the fetched one, descending in playtime, and for every
  playtime its entries come in the order they had. For 15 games with distinct playtimes
  the sample has ten games in strictly descending order, and every game left out has
  less playtime than every game kept.
\<close>

theorem game_sample_top10:
  assumes "net log (owned_games_request rt steam_id) = Inr resp"
    and "status_code resp = 200"
    and "get2 resp (PY ''response'') (PY ''games'') = Inr (JArr games)"
    and "list_all game_entry games"
  shows "\<exists>ranked.
       fetch_games rt net steam_id log = (take 10 ranked, log @ [owned_games_request rt steam_id])
     \<and> mset ranked = mset games
     \<and> sorted_wrt (\<lambda>a b. playtime_of b \<le> playtime_of a) ranked
     \<and> (\<forall>n. filter (\<lambda>g. playtime_of g = n) ranked = filter (\<lambda>g. playtime_of g = n) games)
     \<and> (length games = 15 \<and> distinct (map playtime_of games) \<longrightarrow>
          length (take 10 ranked) = 10
        \<and> sorted_wrt (\<lambda>a b. playtime_of b < playtime_of a) (take 10 ranked)
        \<and> set (take 10 ranked) \<subseteq> set games
        \<and> (\<forall>g\<in>set games. g \<notin> set (take 10 ranked)
              \<longrightarrow> (\<forall>t\<in>set (take 10 ranked). playtime_of g < playtime_of t)))"
proof -
  let ?ranked = "sort_key (\<lambda>g. - playtime_of g) games"
  have f: "fetch_games rt net steam_id log
      = (take 10 ?ranked, log @ [owned_games_request rt steam_id])"
    using assms(1-3) top_games_ranked [OF assms(4)] by (rule fetch_games_ok)
  have m: "mset ?ranked = mset games"
    and s: "sorted_wrt (\<lambda>a b. playtime_of b \<le> playtime_of a) ?ranked"
    and st: "\<forall>n. filter (\<lambda>g. playtime_of g = n) ?ranked = filter (\<lambda>g. playtime_of g = n) games"
    using ranked_properties [where pt = playtime_of and xs = games] by simp_all
  have "length games = 15 \<and> distinct (map playtime_of games) \<longrightarrow>
          length (take 10 ?ranked) = 10
        \<and> sorted_wrt (\<lambda>a b. playtime_of b < playtime_of a) (take 10 ?ranked)
        \<and> set (take 10 ?ranked) \<subseteq> set games
        \<and> (\<forall>g\<in>set games. g \<notin> set (take 10 ?ranked)
              \<longrightarrow> (\<forall>t\<in>set (take 10 ?ranked). playtime_of g < playtime_of t))"
  proof (intro impI, elim conjE)
    assume l: "length games = 15" and d: "distinct (map playtime_of games)"
    from l have k: "10 \<le> length games" by simp
    from top_of_distinct [OF m s d k] show "length (take 10 ?ranked) = 10
        \<and> sorted_wrt (\<lambda>a b. playtime_of b < playtime_of a) (take 10 ?ranked)
        \<and> set (take 10 ?ranked) \<subseteq> set games
        \<and> (\<forall>g\<in>set games. g \<notin> set (take 10 ?ranked)
              \<longrightarrow> (\<forall>t\<in>set (take 10 ?ranked). playtime_of g < playtime_of t))"
      by blast
  qed
  with f m s st show ?thesis by blast
qed

theorem game_sample_top10_witness:
  "list_all game_entry games15
   \<and> length games15 = 15
   \<and> distinct (map playtime_of games15)
   \<and> fst (fetch_games rt0 net_games15 (PY ''76561198000000001'') []) =
       [game ''B'' 150, game ''D'' 140, game ''F'' 130, game ''H'' 120, game ''J'' 110,
        game ''K'' 100, game ''I'' 90, game ''L'' 80, game ''G'' 70, game ''M'' 60]
   \<and> sorted_wrt (\<lambda>a b. playtime_of b < playtime_of a)
        (fst (fetch_games rt0 net_games15 (PY ''76561198000000001'') []))"
proof -
  let ?resp = "\<lparr>status_code = 200,
          body = Some (JObj [(PY ''response'',
                   JObj [(PY ''game_count'', JInt 15), (PY ''games'', JArr games15)])])\<rparr>"
  have n: "net_games15 [] (owned_games_request rt0 (PY ''76561198000000001'')) = Inr ?resp"
    by (simp add: net_games15_def)
  have c: "status_code ?resp = 200" by simp
  have g: "get2 ?resp (PY ''response'') (PY ''games'') = Inr (JArr games15)"
    by (simp add: get2_def json_of_def)
  have e: "list_all game_entry games15"
    by (simp add: games15_def game_entry_game)
  have l: "length games15 = 15"
    by (simp add: games15_def)
  have d: "distinct (map playtime_of games15)"
    by (simp add: games15_def playtime_of_game)
  from game_sample_top10 [where net = net_games15 and log = "[]", OF n c g e] l d
  obtain ranked where
    f: "fetch_games rt0 net_games15 (PY ''76561198000000001'') []
          = (take 10 ranked, [] @ [owned_games_request rt0 (PY ''76561198000000001'')])" and
    s: "sorted_wrt (\<lambda>a b. playtime_of b < playtime_of a) (take 10 ranked)"
    by blast
  have "fetch_games rt0 net_games15 (PY ''76561198000000001'') []
      = (take 10 (sort_key (\<lambda>g. - playtime_of g) games15),
         [] @ [owned_games_request rt0 (PY ''76561198000000001'')])"
    using n c g top_games_ranked [OF e] by (rule fetch_games_ok)
  then have v: "fst (fetch_games rt0 net_games15 (PY ''76561198000000001'') []) =
       [game ''B'' 150, game ''D'' 140, game ''F'' 130, game ''H'' 120, game ''J'' 110,
        game ''K'' 100, game ''I'' 90, game ''L'' 80, game ''G'' 70, game ''M'' 60]"
    by (simp only: fst_conv top_games_games15)
  from f s have "sorted_wrt (\<lambda>a b. playtime_of b < playtime_of a)
        (fst (fetch_games rt0 net_games15 (PY ''76561198000000001'') []))"
    by simp
  with e l d v show ?thesis by blast
qed

subsection \<open>Friend batches\<close>

lemma batches_Nil: "batches [] = []"
  by (simp add: batches.simps)

lemma batches_Cons: "xs \<noteq> [] \<Longrightarrow> batches xs = take 100 xs # batches (drop 100 xs)"
  by (subst batches.simps) simp

lemma concat_batches: "concat (batches xs) = xs"
proof (induction xs rule: batches.induct)
  case (1 xs)
  then show ?case
    by (cases "xs = []") (simp_all add: batches_Nil batches_Cons)
qed

lemma batches_sizes: "b \<in> set (batches xs) \<Longrightarrow> b \<noteq> [] \<and> length b \<le> 100"
proof (induction xs rule: batches.induct)
  case (1 xs)
  then show ?case
    by (cases "xs = []") (auto simp: batches_Nil batches_Cons)
qed

lemma py_join_strs: "list_all is_str xs \<Longrightarrow> py_join sep xs = Inr (join sep (map the_str xs))"
  by (simp add: py_join_def)

lemma fetch_batch_unfold:
  "fetch_batch rt net batch log =
     (batch_outcome (net log (summaries_request rt batch 15)),
      log @ [summaries_request rt batch 15])"
  by (simp add: fetch_batch_def http_request_def)

lemma list_all_drop: "list_all P xs \<Longrightarrow> list_all P (drop n xs)"
  by (auto simp: list_all_iff dest: in_set_dropD)

lemma friend_batches_run:
  assumes "list_all is_str friend_ids"
    and "no_batch_raises net log (map (batch_request rt) (batches (drop i friend_ids)))"
  shows "friend_batches rt net friend_ids i friends_list log =
     ((friends_list @ concat (run_batches net log (map (batch_request rt) (batches (drop i friend_ids)))),
       None),
      log @ map (batch_request rt) (batches (drop i friend_ids)))"
  using assms
proof (induction rt net friend_ids i friends_list log rule: friend_batches.induct)
  case (1 rt net friend_ids i friends_list log)
  show ?case
  proof (cases "i < length friend_ids")
    case False
    then show ?thesis
      by (subst friend_batches.simps) (simp add: batches_Nil)
  next
    case True
    let ?b = "take 100 (drop i friend_ids)"
    let ?rq = "batch_request rt ?b"
    from True have ne: "drop i friend_ids \<noteq> []" by simp
    have bs: "batches (drop i friend_ids) = ?b # batches (drop (i + 100) friend_ids)"
      using batches_Cons [OF ne] by (simp add: add.commute)
    from "1.prems"(1) have "list_all is_str ?b"
      by (intro list_all_take list_all_drop)
    then have j: "py_join (PY '','') ?b = Inr (join (PY '','') (map the_str ?b))"
      by (rule py_join_strs)
    from "1.prems"(2) have nr: "\<not> batch_raises (net log ?rq)"
      and rest: "no_batch_raises net (log @ [?rq])
                   (map (batch_request rt) (batches (drop (i + 100) friend_ids)))"
      unfolding bs by simp_all
    from nr obtain ps where o: "batch_outcome (net log ?rq) = Inr ps"
      by (auto simp: batch_raises_def split: sum.splits)
    then have rec: "batch_records (net log ?rq) = ps"
      by (simp add: batch_records_def)
    have fb: "fetch_batch rt net (join (PY '','') (map the_str ?b)) log = (Inr ps, log @ [?rq])"
      using o by (simp add: fetch_batch_unfold batch_request_def)
    have ih: "friend_batches rt net friend_ids (i + 100) (friends_list @ ps) (log @ [?rq]) =
        (((friends_list @ ps) @ concat (run_batches net (log @ [?rq])
             (map (batch_request rt) (batches (drop (i + 100) friend_ids)))), None),
         (log @ [?rq]) @ map (batch_request rt) (batches (drop (i + 100) friend_ids)))"
      using "1.IH" [OF True j fb [symmetric] refl "1.prems"(1) rest] .
    show ?thesis
      apply (subst friend_batches.simps)
      apply (simp only: True if_True j sum.case fb prod.case ih)
      apply (simp add: bs rec)
      done
  qed
qed

lemma friend_batches_raise:
  assumes "i < length friend_ids"
    and "list_all is_str friend_ids"
    and "batch_outcome (net log (batch_request rt (take 100 (drop i friend_ids)))) = Inl e"
  shows "friend_batches rt net friend_ids i friends_list log =
     ((friends_list, Some e), log @ [batch_request rt (take 100 (drop i friend_ids))])"
proof -
  let ?b = "take 100 (drop i friend_ids)"
  from assms(2) have "list_all is_str ?b"
    by (intro list_all_take list_all_drop)
  then have j: "py_join (PY '','') ?b = Inr (join (PY '','') (map the_str ?b))"
    by (rule py_join_strs)
  have fb: "fetch_batch rt net (join (PY '','') (map the_str ?b)) log
      = (Inl e, log @ [batch_request rt ?b])"
    using assms(3) by (simp add: fetch_batch_unfold batch_request_def)
  show ?thesis
    by (subst friend_batches.simps) (simp only: assms(1) if_True j sum.case fb prod.case)
qed

lemma fetch_friends_batches:
  assumes "net log (friend_list_request rt steam_id) = Inr friends_resp"
    and "status_code friends_resp = 200"
    and "get2 friends_resp (PY ''friendslist'') (PY ''friends'') = Inr (JArr fl)"
    and "map_err (\<lambda>f. py_item f (PY ''steamid'')) fl = Inr friend_ids"
    and "friend_ids \<noteq> []"
  shows "fetch_friends rt net steam_id log =
     (fst (fst (friend_batches rt net friend_ids 0 [] (log @ [friend_list_request rt steam_id]))),
      snd (friend_batches rt net friend_ids 0 [] (log @ [friend_list_request rt steam_id])))"
  using assms
  by (simp add: fetch_friends_def http_request_def split: prod.splits)

lemma batch_outcome_non_200:
  "status_code resp \<noteq> 200 \<Longrightarrow> batch_outcome (Inr resp) = Inr []"
  by (simp add: batch_outcome_def)

text \<open>
  Claim C2, amended. For a non-empty list of friend identifiers, as long as no round of
  the loop raises, the friend profiles are requested in batches of at most 100
  identifiers, one request for each batch and in the order of the list, and the result
  is the concatenation of the records of the batches in that order; a batch that is
  answered with a status other than 200 raises nothing and contributes no record, so
  the batches after it are still requested and appended.
\<close>

theorem friend_profiles_in_batches:
  assumes "net log (friend_list_request rt steam_id) = Inr friends_resp"
    and "status_code friends_resp = 200"
    and "get2 friends_resp (PY ''friendslist'') (PY ''friends'') = Inr (JArr fl)"
    and "map_err (\<lambda>f. py_item f (PY ''steamid'')) fl = Inr friend_ids"
    and "friend_ids \<noteq> []"
    and "list_all is_str friend_ids"
    and "no_batch_raises net (log @ [friend_list_request rt steam_id])
           (map (batch_request rt) (batches friend_ids))"
  shows "fetch_friends rt net steam_id log =
           (concat (run_batches net (log @ [friend_list_request rt steam_id])
                      (map (batch_request rt) (batches friend_ids))),
            log @ [friend_list_request rt steam_id] @ map (batch_request rt) (batches friend_ids))
       \<and> concat (batches friend_ids) = friend_ids
       \<and> (\<forall>b\<in>set (batches friend_ids). b \<noteq> [] \<and> length b \<le> 100)
       \<and> (\<forall>log' rq resp. net log' rq = Inr resp \<and> status_code resp \<noteq> 200
             \<longrightarrow> \<not> batch_raises (net log' rq) \<and> batch_records (net log' rq) = [])"
proof (intro conjI ballI allI impI)
  have "friend_batches rt net friend_ids 0 [] (log @ [friend_list_request rt steam_id]) =
     (([] @ concat (run_batches net (log @ [friend_list_request rt steam_id])
                     (map (batch_request rt) (batches (drop 0 friend_ids)))), None),
      (log @ [friend_list_request rt steam_id]) @
        map (batch_request rt) (batches (drop 0 friend_ids)))"
    using assms(6,7) by (intro friend_batches_run) simp_all
  then show "fetch_friends rt net steam_id log =
           (concat (run_batches net (log @ [friend_list_request rt steam_id])
                      (map (batch_request rt) (batches friend_ids))),
            log @ [friend_list_request rt steam_id] @ map (batch_request rt) (batches friend_ids))"
    unfolding fetch_friends_batches [where net = net and log = log, OF assms(1-5)] by simp
next
  show "concat (batches friend_ids) = friend_ids"
    by (rule concat_batches)
next
  fix b
  assume "b \<in> set (batches friend_ids)"
  then show "b \<noteq> []" and "length b \<le> 100"
    using batches_sizes by blast+
next
  fix log' rq resp
  assume "net log' rq = Inr resp \<and> status_code resp \<noteq> 200"
  then show "\<not> batch_raises (net log' rq)" and "batch_records (net log' rq) = []"
    by (simp_all add: batch_raises_def batch_records_def batch_outcome_non_200)
qed

lemma map_err_friend_entries:
  "map_err (\<lambda>f. py_item f (PY ''steamid'')) (map friend_entry ids) = Inr ids"
  by (induction ids) (simp_all add: friend_entry_def)

lemma length_friend_ids101: "length friend_ids101 = 101"
  by (simp add: friend_ids101_def)

lemma strs_friend_ids101: "list_all is_str friend_ids101"
  by (simp add: friend_ids101_def list_all_iff)

lemma batches_friend_ids101:
  "batches friend_ids101 = [take 100 friend_ids101, drop 100 friend_ids101]"
proof -
  have a: "friend_ids101 \<noteq> []" and b: "drop 100 friend_ids101 \<noteq> []"
    using length_friend_ids101 by auto
  have c: "take 100 (drop 100 friend_ids101) = drop 100 friend_ids101"
    using length_friend_ids101 by simp
  have d: "drop 100 (drop 100 friend_ids101) = []"
    using length_friend_ids101 by simp
  have "batches friend_ids101 = take 100 friend_ids101 # batches (drop 100 friend_ids101)"
    by (rule batches_Cons [OF a])
  also have "batches (drop 100 friend_ids101)
      = take 100 (drop 100 friend_ids101) # batches (drop 100 (drop 100 friend_ids101))"
    by (rule batches_Cons [OF b])
  finally show ?thesis
    unfolding c d batches_Nil .
qed

lemma get2_friends_body:
  "get2 \<lparr>status_code = 200, body = Some (friends_body ids)\<rparr> (PY ''friendslist'') (PY ''friends'')
     = Inr (JArr (map friend_entry ids))"
  by (simp add: get2_def json_of_def friends_body_def)

lemma batch_outcome_players:
  "batch_outcome (Inr \<lparr>status_code = 200, body = Some (players_body ps)\<rparr>) = Inr ps"
  by (simp add: batch_outcome_def get2_def json_of_def players_body_def)

theorem friend_profiles_in_batches_witness:
  "friend_ids101 \<noteq> [] \<and> list_all is_str friend_ids101
   \<and> batches friend_ids101 = [take 100 friend_ids101, drop 100 friend_ids101]
   \<and> no_batch_raises net_batch_500 [friend_list_request rt0 sid0]
        (map (batch_request rt0) (batches friend_ids101))
   \<and> net_batch_500 [friend_list_request rt0 sid0] (batch_request rt0 (take 100 friend_ids101))
        = Inr \<lparr>status_code = 500, body = None\<rparr>
   \<and> fetch_friends rt0 net_batch_500 sid0 [] =
        ([player0],
         [friend_list_request rt0 sid0,
          batch_request rt0 (take 100 friend_ids101),
          batch_request rt0 (drop 100 friend_ids101)])"
proof -
  let ?fr = "\<lparr>status_code = 200, body = Some (friends_body friend_ids101)\<rparr>"
  have n: "net_batch_500 [] (friend_list_request rt0 sid0) = Inr ?fr"
    by (simp add: net_batch_500_def)
  have c: "status_code ?fr = 200" by simp
  have ne: "friend_ids101 \<noteq> []"
    using length_friend_ids101 by auto
  have n1: "net_batch_500 [friend_list_request rt0 sid0] (batch_request rt0 (take 100 friend_ids101))
        = Inr \<lparr>status_code = 500, body = None\<rparr>"
    by (simp add: net_batch_500_def)
  have n2: "net_batch_500 [friend_list_request rt0 sid0, batch_request rt0 (take 100 friend_ids101)]
              (batch_request rt0 (drop 100 friend_ids101))
        = Inr \<lparr>status_code = 200, body = Some (players_body [player0])\<rparr>"
    by (simp add: net_batch_500_def)
  have nr: "no_batch_raises net_batch_500 ([] @ [friend_list_request rt0 sid0])
        (map (batch_request rt0) (batches friend_ids101))"
    by (simp add: batches_friend_ids101 n1 n2 batch_raises_def batch_outcome_non_200
          batch_outcome_players)
  have run: "run_batches net_batch_500 ([] @ [friend_list_request rt0 sid0])
        (map (batch_request rt0) (batches friend_ids101)) = [[], [player0]]"
    by (simp add: batches_friend_ids101 n1 n2 batch_records_def batch_outcome_non_200
          batch_outcome_players)
  from friend_profiles_in_batches [where net = net_batch_500 and log = "[]",
      OF n c get2_friends_body map_err_friend_entries ne strs_friend_ids101 nr]
  have "fetch_friends rt0 net_batch_500 sid0 [] =
           (concat (run_batches net_batch_500 ([] @ [friend_list_request rt0 sid0])
                      (map (batch_request rt0) (batches friend_ids101))),
            [] @ [friend_list_request rt0 sid0] @ map (batch_request rt0) (batches friend_ids101))"
    by blast
  then have "fetch_friends rt0 net_batch_500 sid0 [] =
        ([player0],
         [friend_list_request rt0 sid0,
          batch_request rt0 (take 100 friend_ids101),
          batch_request rt0 (drop 100 friend_ids101)])"
    unfolding run by (simp add: batches_friend_ids101)
  with ne strs_friend_ids101 batches_friend_ids101 nr n1 show ?thesis
    by simp
qed

text \<open>
  Claim C2 as stated fails: with 101 friends, when the request for the first batch
  times out, the exception leaves the loop; the second batch, which the network would
  have answered, is never requested and no friend record is kept.
\<close>

theorem failed_batch_stops_loop_counterexample:
  "batches friend_ids101 = [take 100 friend_ids101, drop 100 friend_ids101]
   \<and> net_batch_timeout [friend_list_request rt0 sid0] (batch_request rt0 (take 100 friend_ids101))
        = Inl RequestException
   \<and> net_batch_timeout [friend_list_request rt0 sid0, batch_request rt0 (take 100 friend_ids101)]
        (batch_request rt0 (drop 100 friend_ids101))
        = Inr \<lparr>status_code = 200, body = Some (players_body [player0])\<rparr>
   \<and> fetch_friends rt0 net_batch_timeout sid0 [] =
        ([], [friend_list_request rt0 sid0, batch_request rt0 (take 100 friend_ids101)])"
proof -
  let ?fr = "\<lparr>status_code = 200, body = Some (friends_body friend_ids101)\<rparr>"
  have n: "net_batch_timeout [] (friend_list_request rt0 sid0) = Inr ?fr"
    by (simp add: net_batch_timeout_def)
  have c: "status_code ?fr = 200" by simp
  have ne: "friend_ids101 \<noteq> []"
    using length_friend_ids101 by auto
  have n1: "net_batch_timeout [friend_list_request rt0 sid0]
              (batch_request rt0 (take 100 friend_ids101)) = Inl RequestException"
    by (simp add: net_batch_timeout_def)
  have n2: "net_batch_timeout [friend_list_request rt0 sid0, batch_request rt0 (take 100 friend_ids101)]
              (batch_request rt0 (drop 100 friend_ids101))
        = Inr \<lparr>status_code = 200, body = Some (players_body [player0])\<rparr>"
    by (simp add: net_batch_timeout_def)
  have o: "batch_outcome (net_batch_timeout ([] @ [friend_list_request rt0 sid0])
              (batch_request rt0 (take 100 (drop 0 friend_ids101)))) = Inl RequestException"
    by (simp add: n1 batch_outcome_def)
  have l: "0 < length friend_ids101"
    using length_friend_ids101 by simp
  have "friend_batches rt0 net_batch_timeout friend_ids101 0 [] ([] @ [friend_list_request rt0 sid0])
      = (([], Some RequestException),
         ([] @ [friend_list_request rt0 sid0]) @ [batch_request rt0 (take 100 (drop 0 friend_ids101))])"
    using l strs_friend_ids101 o by (rule friend_batches_raise)
  then have "fetch_friends rt0 net_batch_timeout sid0 [] =
        ([], [friend_list_request rt0 sid0, batch_request rt0 (take 100 friend_ids101)])"
    unfolding fetch_friends_batches [where net = net_batch_timeout and log = "[]",
        OF n c get2_friends_body map_err_friend_entries ne]
    by simp
  with batches_friend_ids101 n1 n2 show ?thesis
    by simp
qed

subsection \<open>The profile fetch\<close>

lemma fetch_friends_degrades:
  "(\<forall>r. net l (friend_list_request rt steam_id) = Inr r \<longrightarrow> status_code r \<noteq> 200)
     \<Longrightarrow> fst (fetch_friends rt net steam_id l) = []"
  by (auto simp: fetch_friends_def http_request_def split: sum.splits prod.splits)

lemma fetch_friends_malformed:
  "net l (friend_list_request rt steam_id) = Inr r \<Longrightarrow>
   ebind (get2 r (PY ''friendslist'') (PY ''friends'')) (\<lambda>friends.
     ebind (py_iter friends) (map_err (\<lambda>f. py_item f (PY ''steamid'')))) = Inl e
     \<Longrightarrow> fst (fetch_friends rt net steam_id l) = []"
  by (simp add: fetch_friends_def http_request_def)

lemma fetch_games_degrades:
  "(\<forall>r. net l (owned_games_request rt steam_id) = Inr r \<longrightarrow> status_code r \<noteq> 200)
     \<Longrightarrow> fst (fetch_games rt net steam_id l) = []"
  by (auto simp: fetch_games_def http_request_def split: sum.splits prod.splits)

lemma fetch_games_malformed:
  "net l (owned_games_request rt steam_id) = Inr r \<Longrightarrow>
   ebind (get2 r (PY ''response'') (PY ''games'')) (top_games rt) = Inl e
     \<Longrightarrow> fst (fetch_games rt net steam_id l) = []"
  by (simp add: fetch_games_def http_request_def)

lemma fetch_steam_profile_answered:
  assumes "net log (summaries_request rt steam_id 10) = Inr resp"
  shows "fst (fetch_steam_profile rt net steam_id log) =
     (if status_code resp \<noteq> 200 then Inr None
      else case get2 resp (PY ''response'') (PY ''players'') of
        Inl e \<Rightarrow> Inl e
      | Inr players \<Rightarrow>
          if \<not> truthy players then Inr None
          else case py_item0 players of
            Inl e \<Rightarrow> Inl e
          | Inr user_data \<Rightarrow>
              Inr (Some \<lparr>profile = user_data,
                 friends = fst (fetch_friends rt net steam_id
                                 (log @ [summaries_request rt steam_id 10])),
                 owned_games_sample =
                   fst (fetch_games rt net steam_id
                         (snd (fetch_friends rt net steam_id
                                (log @ [summaries_request rt steam_id 10]))))\<rparr>))"
  using assms
  by (simp add: fetch_steam_profile_def http_request_def Let_def split: sum.splits prod.splits)

text \<open>
  Claim C1, amended. When the profile request is answered, with a status other than 200
  or with status 200 and a body whose player list is a list (an absent one counts as
  empty), \<open>fetch_steam_profile\<close> raises nothing, and it returns \<open>None\<close> exactly
  when the status is not 200 or the player list is empty; otherwise it returns the
  aggregate of the first player, the friends and the games sample. A friends or games
  request that raises, is answered with a status other than 200 or carries a payload
  that cannot be read leaves an empty sequence and nothing else.
\<close>

theorem fetch_profile_not_found:
  assumes "net log (summaries_request rt steam_id 10) = Inr resp"
    and "status_code resp = 200 \<longrightarrow>
           get2 resp (PY ''response'') (PY ''players'') = Inr (JArr players)"
  shows "(fst (fetch_steam_profile rt net steam_id log) = Inr None
            \<longleftrightarrow> status_code resp \<noteq> 200 \<or> players = [])
     \<and> (\<exists>result. fst (fetch_steam_profile rt net steam_id log) = Inr result)
     \<and> (status_code resp = 200 \<and> players \<noteq> [] \<longrightarrow>
          fst (fetch_steam_profile rt net steam_id log) =
            Inr (Some \<lparr>profile = hd players,
                 friends = fst (fetch_friends rt net steam_id
                                 (log @ [summaries_request rt steam_id 10])),
                 owned_games_sample =
                   fst (fetch_games rt net steam_id
                         (snd (fetch_friends rt net steam_id
                                (log @ [summaries_request rt steam_id 10]))))\<rparr>))
     \<and> (\<forall>l. (\<forall>r. net l (friend_list_request rt steam_id) = Inr r \<longrightarrow> status_code r \<noteq> 200)
            \<longrightarrow> fst (fetch_friends rt net steam_id l) = [])
     \<and> (\<forall>l r e. net l (friend_list_request rt steam_id) = Inr r
            \<and> ebind (get2 r (PY ''friendslist'') (PY ''friends'')) (\<lambda>friends.
                 ebind (py_iter friends) (map_err (\<lambda>f. py_item f (PY ''steamid'')))) = Inl e
            \<longrightarrow> fst (fetch_friends rt net steam_id l) = [])
     \<and> (\<forall>l. (\<forall>r. net l (owned_games_request rt steam_id) = Inr r \<longrightarrow> status_code r \<noteq> 200)
            \<longrightarrow> fst (fetch_games rt net steam_id l) = [])
     \<and> (\<forall>l r e. net l (owned_games_request rt steam_id) = Inr r
            \<and> ebind (get2 r (PY ''response'') (PY ''games'')) (top_games rt) = Inl e
            \<longrightarrow> fst (fetch_games rt net steam_id l) = [])"
proof (intro conjI allI impI)
  show "fst (fetch_steam_profile rt net steam_id log) = Inr None
            \<longleftrightarrow> status_code resp \<noteq> 200 \<or> players = []"
    using assms(2) unfolding fetch_steam_profile_answered [where net = net and log = log, OF assms(1)]
    by (cases players) auto
next
  show "\<exists>result. fst (fetch_steam_profile rt net steam_id log) = Inr result"
    using assms(2) unfolding fetch_steam_profile_answered [where net = net and log = log, OF assms(1)]
    by (cases players) auto
next
  assume "status_code resp = 200 \<and> players \<noteq> []"
  then show "fst (fetch_steam_profile rt net steam_id log) =
            Inr (Some \<lparr>profile = hd players,
                 friends = fst (fetch_friends rt net steam_id
                                 (log @ [summaries_request rt steam_id 10])),
                 owned_games_sample =
                   fst (fetch_games rt net steam_id
                         (snd (fetch_friends rt net steam_id
                                (log @ [summaries_request rt steam_id 10]))))\<rparr>)"
    using assms(2) unfolding fetch_steam_profile_answered [where net = net and log = log, OF assms(1)]
    by (cases players) auto
next
  fix l
  assume "\<forall>r. net l (friend_list_request rt steam_id) = Inr r \<longrightarrow> status_code r \<noteq> 200"
  then show "fst (fetch_friends rt net steam_id l) = []"
    by (rule fetch_friends_degrades)
next
  fix l r e
  assume "net l (friend_list_request rt steam_id) = Inr r
            \<and> ebind (get2 r (PY ''friendslist'') (PY ''friends'')) (\<lambda>friends.
                 ebind (py_iter friends) (map_err (\<lambda>f. py_item f (PY ''steamid'')))) = Inl e"
  then show "fst (fetch_friends rt net steam_id l) = []"
    using fetch_friends_malformed by blast
next
  fix l
  assume "\<forall>r. net l (owned_games_request rt steam_id) = Inr r \<longrightarrow> status_code r \<noteq> 200"
  then show "fst (fetch_games rt net steam_id l) = []"
    by (rule fetch_games_degrades)
next
  fix l r e
  assume "net l (owned_games_request rt steam_id) = Inr r
            \<and> ebind (get2 r (PY ''response'') (PY ''games'')) (top_games rt) = Inl e"
  then show "fst (fetch_games rt net steam_id l) = []"
    using fetch_games_malformed by blast
qed

lemma get2_players_body:
  "get2 \<lparr>status_code = c, body = Some (players_body ps)\<rparr> (PY ''response'') (PY ''players'')
     = Inr (JArr ps)"
  by (simp add: get2_def json_of_def players_body_def)

theorem fetch_profile_not_found_witness:
  "net_profile_only [] (summaries_request rt0 sid0 10)
       = Inr \<lparr>status_code = 200, body = Some (players_body [player0])\<rparr>
   \<and> net_profile_only [summaries_request rt0 sid0 10] (friend_list_request rt0 sid0)
       = Inl RequestException
   \<and> fst (fetch_steam_profile rt0 net_profile_only sid0 []) =
       Inr (Some \<lparr>profile = player0, friends = [], owned_games_sample = []\<rparr>)
   \<and> fst (fetch_steam_profile rt0 net_profile_only sid0 []) \<noteq> Inr None"
proof -
  let ?resp = "\<lparr>status_code = 200, body = Some (players_body [player0])\<rparr>"
  have n: "net_profile_only [] (summaries_request rt0 sid0 10) = Inr ?resp"
    by (simp add: net_profile_only_def)
  have g: "status_code ?resp = 200 \<longrightarrow>
      get2 ?resp (PY ''response'') (PY ''players'') = Inr (JArr [player0])"
    by (simp only: get2_players_body simp_thms)
  have d: "\<And>l rq. l \<noteq> [] \<Longrightarrow> net_profile_only l rq = Inl RequestException"
    by (simp add: net_profile_only_def)
  have f: "\<And>l. l \<noteq> [] \<Longrightarrow> \<forall>r. net_profile_only l (friend_list_request rt0 sid0) = Inr r
      \<longrightarrow> status_code r \<noteq> 200"
    by (simp add: d)
  have o: "\<And>l. l \<noteq> [] \<Longrightarrow> \<forall>r. net_profile_only l (owned_games_request rt0 sid0) = Inr r
      \<longrightarrow> status_code r \<noteq> 200"
    by (simp add: d)
  have s: "snd (fetch_friends rt0 net_profile_only sid0 [summaries_request rt0 sid0 10]) \<noteq> []"
    by (simp add: fetch_friends_def http_request_def d)
  note t = fetch_profile_not_found [where net = net_profile_only and log = "[]", OF n g]
  note t3 = t [THEN conjunct2, THEN conjunct2, THEN conjunct1]
  note t4 = t [THEN conjunct2, THEN conjunct2, THEN conjunct2, THEN conjunct1]
  note t6 = t [THEN conjunct2, THEN conjunct2, THEN conjunct2, THEN conjunct2, THEN conjunct2,
                THEN conjunct1]
  have ne: "[summaries_request rt0 sid0 10] \<noteq> []" by simp
  have fr: "fst (fetch_friends rt0 net_profile_only sid0 [summaries_request rt0 sid0 10]) = []"
    by (rule t4 [THEN spec, THEN mp, OF f [OF ne]])
  have gm: "fst (fetch_games rt0 net_profile_only sid0
        (snd (fetch_friends rt0 net_profile_only sid0 [summaries_request rt0 sid0 10]))) = []"
    by (rule t6 [THEN spec, THEN mp, OF o [OF s]])
  have "fst (fetch_steam_profile rt0 net_profile_only sid0 []) =
       Inr (Some \<lparr>profile = player0, friends = [], owned_games_sample = []\<rparr>)"
    using t3 fr gm by simp
  with n d [of "[summaries_request rt0 sid0 10]"] show ?thesis
    by simp
qed

text \<open>
  Claim C1 as stated fails: a profile response with the 2xx status 201 and a non-empty
  player list is turned into \<open>None\<close>, because the test is \<open>status_code != 200\<close>.
\<close>

theorem fetch_profile_2xx_counterexample:
  "net_201 [] (summaries_request rt0 sid0 10)
       = Inr \<lparr>status_code = 201, body = Some (players_body [player0])\<rparr>
   \<and> get2 \<lparr>status_code = 201, body = Some (players_body [player0])\<rparr>
         (PY ''response'') (PY ''players'') = Inr (JArr [player0])
   \<and> fst (fetch_steam_profile rt0 net_201 sid0 []) = Inr None"
proof (intro conjI)
  show "net_201 [] (summaries_request rt0 sid0 10)
       = Inr \<lparr>status_code = 201, body = Some (players_body [player0])\<rparr>"
    by (simp add: net_201_def)
  show "get2 \<lparr>status_code = 201, body = Some (players_body [player0])\<rparr>
         (PY ''response'') (PY ''players'') = Inr (JArr [player0])"
    by (rule get2_players_body)
  show "fst (fetch_steam_profile rt0 net_201 sid0 []) = Inr None"
    by (simp add: fetch_steam_profile_def http_request_def net_201_def)
qed

text \<open>
  The profile request itself is outside every \<open>try\<close>: when it raises, for example
  on a timeout, the exception reaches the caller.
\<close>

lemma fetch_profile_transport_error:
  "fetch_steam_profile rt0 net_down sid0 []
     = (Inl RequestException, [summaries_request rt0 sid0 10])"
  by (simp add: fetch_steam_profile_def http_request_def net_down_def)

end
